theory Spec2Isabelle
  imports Main "HOL-Library.Word" "HOL-Library.AList" "HOL-Library.Sublist"
begin

section \<open>Onboarding flow of the BTicino X8000 component (config_flow.py)\<close>

text \<open>
  The config flow is a class with three interactive steps and three helper methods. The
  model keeps the attributes of the flow object and the world around it (remote calls made,
  random draws used, existing configuration entries) in one record that every method takes
  and returns. Exceptions are values: a method returns \<open>Inl e\<close> when the Python raises.
  Calls to the logger are not modelled.
\<close>

subsection \<open>Exceptions\<close>

datatype error =
    ValueError
  | KeyError
  | IndexError
  | AttributeError
  | UnboundLocalError
  | OtherError string

text \<open>In Python \<open>UnboundLocalError\<close> is a subclass of \<open>NameError\<close>.\<close>

definition is_NameError :: "error \<Rightarrow> bool" where
  "is_NameError e = (e = UnboundLocalError)"

subsection \<open>Payloads of the remote API\<close>

text \<open>
  The API wrapper (api.py) answers with dictionaries. The flow reads the keys below and no
  others; each payload is a record of exactly these keys.
\<close>

record plant =
  plant_ident :: string

record thermo =
  thermo_ident :: string
  thermo_name :: string

record program =
  number :: int
  program_name :: string

record plants_response =
  plants_status_code :: int
  plants_data :: "plant list"

record topology_response =
  topology_data :: "thermo list"

record programlist_response =
  programs_data :: "program list"

record subscribe_response =
  status_code :: int
  subscriptionId :: string

subsection \<open>Data built by the flow\<close>

record thermostat_candidate =
  cand_id :: string
  cand_name :: string
  cand_webhook_id :: string
  cand_programs :: "program list"

record selected_thermostat = thermostat_candidate +
  subscription_id :: "string option"

text \<open>
  \<open>thermostat_options\<close> is a Python dict: insertion ordered, one value per key.
  \<open>AList.update\<close> is \<open>dict.update\<close> with one key: it replaces the value of a key
  that is present, in place, and appends a new key at the end.
\<close>

type_synonym thermostat_options = "(string \<times> thermostat_candidate) list"

record config_data =
  cfg_client_id :: string
  cfg_client_secret :: string
  cfg_subscription_key :: string
  cfg_external_url :: string
  cfg_access_token :: string
  cfg_refresh_token :: string
  cfg_access_token_expires_on :: string
  cfg_selected_thermostats :: "(string \<times> selected_thermostat) list"

datatype field =
    StrField string string "string option"
  | MultiSelectField string string "string list" "string list"

record form =
  step_id :: string
  data_schema :: "field list"
  errors :: "(string \<times> string) list option"

datatype flow_result =
    Abort string
  | ShowForm form
  | CreateEntry string config_data

subsection \<open>The world and the flow object\<close>

datatype call =
    ExchangeCode string string string string
  | CheckHealth
  | GetPlants
  | GetTopology string
  | GetProgramList string string
  | Subscribe string string

text \<open>
  Everything the flow imports is a field of \<open>env\<close>: the constants of const.py, the
  platform's configured external URL (reading it may raise), the random sources, the
  standard library's URL functions, the iteration order of a Python set, the token
  exchange of auth.py and the methods of the API wrapper. A remote call may answer
  differently each time: its answer is a function of the calls made before it.
\<close>

record env =
  DEFAULT_AUTH_BASE_URL :: string
  AUTH_URL_ENDPOINT :: string
  DEFAULT_REDIRECT_URI :: string
  CLIENT_ID :: string
  CLIENT_SECRET :: string
  SUBSCRIPTION_KEY :: string
  hass_external_url :: "error + string option"
  token_bytes :: "nat \<Rightarrow> nat \<Rightarrow> 8 word"
  generate_id :: "nat \<Rightarrow> string"
  urlparse_query :: "string \<Rightarrow> error + string"
  parse_qs :: "string \<Rightarrow> (string \<rightharpoonup> string list)"
  set_order :: "string list \<Rightarrow> string list"
  exchange_code_for_tokens ::
    "call list \<Rightarrow> string \<Rightarrow> string \<Rightarrow> string \<Rightarrow> string \<Rightarrow> error + (string \<times> string \<times> string)"
  check_api_endpoint_health :: "call list \<Rightarrow> bool"
  get_plants :: "call list \<Rightarrow> plants_response"
  get_topology :: "call list \<Rightarrow> string \<Rightarrow> topology_response"
  get_chronothermostat_programlist :: "call list \<Rightarrow> string \<Rightarrow> string \<Rightarrow> programlist_response"
  set_subscribe_C2C_notifications :: "call list \<Rightarrow> string \<Rightarrow> string \<Rightarrow> subscribe_response"

text \<open>
  The attributes \<open>data\<close>, \<open>bticino_api\<close> and \<open>_thermostat_options\<close> do not exist
  until a step assigns them (\<open>None\<close>, \<open>False\<close>); reading one that does not exist raises
  \<open>AttributeError\<close>.
\<close>

record flow =
  data :: "(string \<rightharpoonup> string) option"
  bticino_api :: bool
  thermostat_options :: "thermostat_options option"
  current_entries :: "(string \<times> config_data) list"
  calls :: "call list"
  ids_minted :: nat
  tokens_drawn :: nat

type_synonym 'a action = "flow \<Rightarrow> (error + 'a) \<times> flow"

definition ret :: "'a \<Rightarrow> 'a action" where
  "ret x = (\<lambda>s. (Inr x, s))"

definition raise_err :: "error \<Rightarrow> 'a action" where
  "raise_err e = (\<lambda>s. (Inl e, s))"

definition bnd :: "'a action \<Rightarrow> ('a \<Rightarrow> 'b action) \<Rightarrow> 'b action" where
  "bnd m f = (\<lambda>s. case m s of (Inl e, s') \<Rightarrow> (Inl e, s') | (Inr x, s') \<Rightarrow> f x s')"

definition lift :: "error + 'a \<Rightarrow> 'a action" where
  "lift r = (case r of Inl e \<Rightarrow> raise_err e | Inr x \<Rightarrow> ret x)"

definition getitem :: "('k \<rightharpoonup> 'v) \<Rightarrow> 'k \<Rightarrow> 'v action" where
  "getitem d k = (case d k of None \<Rightarrow> raise_err KeyError | Some v \<Rightarrow> ret v)"

definition dict_get :: "('k \<rightharpoonup> 'v) \<Rightarrow> 'k \<Rightarrow> 'v \<Rightarrow> 'v" where
  "dict_get d k dflt = (case d k of None \<Rightarrow> dflt | Some v \<Rightarrow> v)"

definition first_item :: "'a list \<Rightarrow> 'a action" where
  "first_item xs = (case xs of [] \<Rightarrow> raise_err IndexError | x # _ \<Rightarrow> ret x)"

definition self_data :: "(string \<rightharpoonup> string) action" where
  "self_data = (\<lambda>s. case data s of None \<Rightarrow> (Inl AttributeError, s) | Some d \<Rightarrow> (Inr d, s))"

definition set_data_item :: "string \<Rightarrow> string \<Rightarrow> unit action" where
  "set_data_item k v = bnd self_data (\<lambda>d s. (Inr (), s\<lparr>data := Some (d(k \<mapsto> v))\<rparr>))"

definition self_bticino_api :: "unit action" where
  "self_bticino_api = (\<lambda>s. if bticino_api s then (Inr (), s) else (Inl AttributeError, s))"

definition self_thermostat_options :: "thermostat_options action" where
  "self_thermostat_options =
     (\<lambda>s. case thermostat_options s of None \<Rightarrow> (Inl AttributeError, s) | Some opts \<Rightarrow> (Inr opts, s))"

definition remote :: "call \<Rightarrow> (call list \<Rightarrow> 'a) \<Rightarrow> 'a action" where
  "remote c answer = (\<lambda>s. (Inr (answer (calls s)), s\<lparr>calls := calls s @ [c]\<rparr>))"

subsection \<open>Random tokens\<close>

definition hex_digit :: "nat \<Rightarrow> char" where
  "hex_digit n = ''0123456789abcdef'' ! n"

definition hex_byte :: "8 word \<Rightarrow> string" where
  "hex_byte w = [hex_digit (unat w div 16), hex_digit (unat w mod 16)]"

definition hexlify :: "8 word list \<Rightarrow> string" where
  "hexlify bytes = concat (map hex_byte bytes)"

text \<open>
  \<open>secrets.token_hex(n)\<close>: \<open>n\<close> bytes from the random source, two lowercase hex
  digits each.
\<close>

definition token_hex :: "env \<Rightarrow> nat \<Rightarrow> string action" where
  "token_hex env n =
     (\<lambda>s. (Inr (hexlify (map (token_bytes env (tokens_drawn s)) [0..<n])),
           s\<lparr>tokens_drawn := Suc (tokens_drawn s)\<rparr>))"

definition new_webhook_id :: "env \<Rightarrow> string action" where
  "new_webhook_id env = (\<lambda>s. (Inr (generate_id env (ids_minted s)), s\<lparr>ids_minted := Suc (ids_minted s)\<rparr>))"

subsection \<open>get_authorization_url\<close>

definition get_authorization_url :: "env \<Rightarrow> (string \<rightharpoonup> string) \<Rightarrow> string action" where
  "get_authorization_url env user_input =
     bnd (token_hex env 16) (\<lambda>state.
     bnd (getitem user_input ''client_id'') (\<lambda>client_id.
     ret (DEFAULT_AUTH_BASE_URL env @ AUTH_URL_ENDPOINT env @ ''?''
          @ ''client_id='' @ client_id
          @ ''&response_type=code''
          @ ''&state='' @ state
          @ ''&redirect_uri='' @ DEFAULT_REDIRECT_URI env)))"

subsection \<open>async_step_user\<close>

definition external_url_prompt :: string where
  "external_url_prompt =
     ''My HA external url ex: https://pippo.duckdns.com:8123 (specify the port if is not standard 443)''"

definition user_form :: "env \<Rightarrow> string option \<Rightarrow> form" where
  "user_form env external_url =
     \<lparr>step_id = ''user'',
      data_schema =
        [StrField ''client_id'' ''Client ID'' (Some (CLIENT_ID env)),
         StrField ''client_secret'' ''Client Secret'' (Some (CLIENT_SECRET env)),
         StrField ''subscription_key'' ''Subscription Key'' (Some (SUBSCRIPTION_KEY env)),
         StrField ''external_url'' ''HA external_url'' external_url],
      errors = None\<rparr>"

definition authorize_message :: "string \<Rightarrow> string" where
  "authorize_message authorization_url =
     ''Click the link below to authorize Bticino X8000. After authorization, paste the browser URL here.''
     @ [CHR 0x0A, CHR 0x0A] @ authorization_url"

definition authorize_form :: "string \<Rightarrow> form" where
  "authorize_form message =
     \<lparr>step_id = ''get_authorize_code'',
      data_schema =
        [StrField ''browser_url'' ''Paste here the browser URL'' (Some ''Paste here the browser URL'')],
      errors = Some [(''base'', message)]\<rparr>"

definition async_step_user :: "env \<Rightarrow> (string \<rightharpoonup> string) option \<Rightarrow> flow_result action" where
  "async_step_user env user_input =
     (let external_url =
            (case hass_external_url env of Inl _ \<Rightarrow> Some external_url_prompt | Inr u \<Rightarrow> u)
      in (\<lambda>s.
        if current_entries s \<noteq> [] then ret (Abort ''single_instance_allowed'') s
        else (case user_input of
                None \<Rightarrow> ret (ShowForm (user_form env external_url)) s
              | Some ui \<Rightarrow>
                  bnd (get_authorization_url env ui) (\<lambda>authorization_url.
                    ret (ShowForm (authorize_form (authorize_message authorization_url))))
                  (s\<lparr>data := Some ui\<rparr>))))"

subsection \<open>get_programs_from_api\<close>

definition get_programs_from_api :: "env \<Rightarrow> string \<Rightarrow> string \<Rightarrow> program list action" where
  "get_programs_from_api env plant_id topology_id =
     bnd self_bticino_api (\<lambda>_.
     bnd (remote (GetProgramList plant_id topology_id)
            (\<lambda>h. get_chronothermostat_programlist env h plant_id topology_id)) (\<lambda>programs.
     ret (filter (\<lambda>program. number program \<noteq> 0) (programs_data programs))))"

subsection \<open>add_c2c_subscription\<close>

definition add_c2c_subscription :: "env \<Rightarrow> string \<Rightarrow> string \<Rightarrow> string option action" where
  "add_c2c_subscription env plantId webhook_id =
     (let webhook_path = ''/api/webhook/'' in
      bnd self_data (\<lambda>d.
      bnd (getitem d ''external_url'') (\<lambda>external_url.
      let webhook_endpoint = external_url @ webhook_path @ webhook_id in
      bnd self_bticino_api (\<lambda>_.
      bnd (remote (Subscribe plantId webhook_endpoint)
             (\<lambda>h. set_subscribe_C2C_notifications env h plantId webhook_endpoint)) (\<lambda>response.
      if status_code response = 201 then ret (Some (subscriptionId response))
      else ret None)))))"

subsection \<open>async_step_get_authorize_code\<close>

text \<open>The inner loop, over the devices of one plant: every device is stored under the plant's id.\<close>

primrec thermo_loop ::
  "env \<Rightarrow> string \<Rightarrow> thermo list \<Rightarrow> thermostat_options \<Rightarrow> thermostat_options action" where
  "thermo_loop env plant_id [] opts = ret opts"
| "thermo_loop env plant_id (t # ts) opts =
     bnd (new_webhook_id env) (\<lambda>wid.
     bnd (get_programs_from_api env plant_id (thermo_ident t)) (\<lambda>progs.
     thermo_loop env plant_id ts
       (AList.update plant_id
          \<lparr>cand_id = thermo_ident t, cand_name = thermo_name t, cand_webhook_id = wid, cand_programs = progs\<rparr>
          opts)))"

primrec plant_loop :: "env \<Rightarrow> string list \<Rightarrow> thermostat_options \<Rightarrow> thermostat_options action" where
  "plant_loop env [] opts = ret opts"
| "plant_loop env (plant_id # rest) opts =
     bnd self_bticino_api (\<lambda>_.
     bnd (remote (GetTopology plant_id) (\<lambda>h. get_topology env h plant_id)) (\<lambda>topologies.
     bnd (thermo_loop env plant_id (topology_data topologies) opts) (\<lambda>opts'.
     plant_loop env rest opts')))"

definition select_form :: "thermostat_options \<Rightarrow> form" where
  "select_form opts =
     \<lparr>step_id = ''select_thermostats'',
      data_schema =
        [MultiSelectField ''selected_thermostats'' ''Select Thermostats''
           (map (\<lambda>(thermo, c). cand_name c) opts)
           (map (\<lambda>(thermo, c). cand_name c) opts)],
      errors = None\<rparr>"

definition exchange :: "env \<Rightarrow> string \<Rightarrow> string \<Rightarrow> string \<Rightarrow> string \<Rightarrow> (string \<times> string \<times> string) action" where
  "exchange env client_id client_secret redirect_uri code =
     (\<lambda>s. (exchange_code_for_tokens env (calls s) client_id client_secret redirect_uri code,
           s\<lparr>calls := calls s @ [ExchangeCode client_id client_secret redirect_uri code]\<rparr>))"

text \<open>
  Discovery, after the health check. The local variable \<open>thermostat_options\<close> is bound
  only in the branch of status 200; the form that follows reads it in either case.
\<close>

definition discover :: "env \<Rightarrow> flow_result action" where
  "discover env =
     bnd self_bticino_api (\<lambda>_.
     bnd (remote GetPlants (get_plants env)) (\<lambda>plants.
     bnd (if plants_status_code plants = 200 then
            bnd (plant_loop env (set_order env (map plant_ident (plants_data plants))) [])
              (\<lambda>opts.
            bnd (\<lambda>s. (Inr (), s\<lparr>thermostat_options := Some opts\<rparr>)) (\<lambda>_.
            ret (Some opts)))
          else ret None) (\<lambda>local_thermostat_options.
     case local_thermostat_options of
       None \<Rightarrow> raise_err UnboundLocalError
     | Some opts \<Rightarrow> ret (ShowForm (select_form opts)))))"

text \<open>The body of the \<open>try\<close> block.\<close>

definition authorize_code_try :: "env \<Rightarrow> (string \<rightharpoonup> string) \<Rightarrow> flow_result action" where
  "authorize_code_try env user_input =
     bnd (getitem user_input ''browser_url'') (\<lambda>browser_url.
     bnd (lift (urlparse_query env browser_url)) (\<lambda>query.
     let query_params = parse_qs env query in
     bnd (first_item (dict_get query_params ''code'' [''''])) (\<lambda>code.
     bnd (first_item (dict_get query_params ''state'' [''''])) (\<lambda>state.
     if code = [] \<or> state = [] then raise_err ValueError
     else
       bnd (set_data_item ''code'' code) (\<lambda>_.
       bnd self_data (\<lambda>d1.
       bnd (getitem d1 ''client_id'') (\<lambda>client_id.
       bnd (getitem d1 ''client_secret'') (\<lambda>client_secret.
       bnd (exchange env client_id client_secret (DEFAULT_REDIRECT_URI env) code)
         (\<lambda>(access_token, refresh_token, access_token_expires_on).
       bnd (set_data_item ''access_token'' access_token) (\<lambda>_.
       bnd (set_data_item ''refresh_token'' refresh_token) (\<lambda>_.
       bnd (set_data_item ''access_token_expires_on'' access_token_expires_on) (\<lambda>_.
       bnd (\<lambda>s. (Inr (), s\<lparr>bticino_api := True\<rparr>)) (\<lambda>_.
       bnd (remote CheckHealth (check_api_endpoint_health env)) (\<lambda>healthy.
       if \<not> healthy then ret (Abort ''Auth Failed!'')
       else discover env))))))))))))))"

text \<open>With no input the step hands over to the user step, with the stored credentials.\<close>

definition authorize_code_no_input :: "env \<Rightarrow> flow_result action" where
  "authorize_code_no_input env = bnd self_data (\<lambda>d. async_step_user env (Some d))"

definition async_step_get_authorize_code ::
  "env \<Rightarrow> (string \<rightharpoonup> string) option \<Rightarrow> flow_result action" where
  "async_step_get_authorize_code env user_input =
     (case user_input of
        None \<Rightarrow> authorize_code_no_input env
      | Some ui \<Rightarrow>
          (\<lambda>s. case authorize_code_try env ui s of
                  (Inl ValueError, s') \<Rightarrow> authorize_code_no_input env s'
                | r \<Rightarrow> r))"

subsection \<open>async_step_select_thermostats\<close>

primrec subscribe_selected ::
  "env \<Rightarrow> string list \<Rightarrow> thermostat_options \<Rightarrow> (string \<times> selected_thermostat) list action" where
  "subscribe_selected env selected [] = ret []"
| "subscribe_selected env selected (item # items) =
     (if cand_name (snd item) \<in> set selected then
        bnd (add_c2c_subscription env (fst item) (cand_webhook_id (snd item))) (\<lambda>sub.
        bnd (subscribe_selected env selected items) (\<lambda>others.
        ret ((fst item,
              \<lparr>cand_id = cand_id (snd item), cand_name = cand_name (snd item),
               cand_webhook_id = cand_webhook_id (snd item), cand_programs = cand_programs (snd item),
               subscription_id = sub\<rparr>) # others)))
      else subscribe_selected env selected items)"

definition async_step_select_thermostats :: "env \<Rightarrow> string list \<Rightarrow> flow_result action" where
  "async_step_select_thermostats env selected =
     bnd self_thermostat_options (\<lambda>opts.
     bnd (subscribe_selected env selected opts) (\<lambda>selected_thermostats.
     bnd self_data (\<lambda>d.
     bnd (getitem d ''client_id'') (\<lambda>client_id.
     bnd (getitem d ''client_secret'') (\<lambda>client_secret.
     bnd (getitem d ''subscription_key'') (\<lambda>subscription_key.
     bnd (getitem d ''external_url'') (\<lambda>external_url.
     bnd (getitem d ''access_token'') (\<lambda>access_token.
     bnd (getitem d ''refresh_token'') (\<lambda>refresh_token.
     bnd (getitem d ''access_token_expires_on'') (\<lambda>access_token_expires_on.
     ret (CreateEntry ''Bticino X8000''
            \<lparr>cfg_client_id = client_id,
             cfg_client_secret = client_secret,
             cfg_subscription_key = subscription_key,
             cfg_external_url = external_url,
             cfg_access_token = access_token,
             cfg_refresh_token = refresh_token,
             cfg_access_token_expires_on = access_token_expires_on,
             cfg_selected_thermostats = selected_thermostats\<rparr>)))))))))))"

subsection \<open>Reading the query of a URL\<close>

text \<open>
  The reader follows \<open>urllib.parse\<close>, for URLs without whitespace and control
  characters. \<open>url_query\<close> is the query component of \<open>urlparse\<close>: the text between
  the first \<open>?\<close> and the fragment. \<open>parse_qsl\<close> cuts the query at every \<open>&\<close>,
  skips an empty piece, a piece without \<open>=\<close> and a piece with a blank value, cuts a
  piece at its first \<open>=\<close>, and decodes name and value: \<open>+\<close> is a space, \<open>%\<close> with
  two hex digits is the byte they name. A string is its UTF-8 bytes here; bytes that are
  not UTF-8 are kept as they are. It states what an authorization URL contains, and it is
  the URL reader of the sample world below.
\<close>

definition before :: "char \<Rightarrow> string \<Rightarrow> string" where
  "before c s = takeWhile (\<lambda>x. x \<noteq> c) s"

definition after :: "char \<Rightarrow> string \<Rightarrow> string" where
  "after c s = drop 1 (dropWhile (\<lambda>x. x \<noteq> c) s)"

primrec split_on :: "char \<Rightarrow> string \<Rightarrow> string list" where
  "split_on c [] = [[]]"
| "split_on c (x # xs) =
     (if x = c then [] # split_on c xs
      else (case split_on c xs of [] \<Rightarrow> [[x]] | p # ps \<Rightarrow> (x # p) # ps))"

definition url_query :: "string \<Rightarrow> string" where
  "url_query url = after CHR ''?'' (before CHR ''#'' url)"

definition hex_value :: "char \<Rightarrow> nat option" where
  "hex_value c = map_of (zip ''0123456789abcdef'' [0..<16] @ zip ''ABCDEF'' [10..<16]) c"

fun unquote :: "string \<Rightarrow> string" where
  "unquote (c # h # l # rest) =
     (if c = CHR ''%'' then
        (case (hex_value h, hex_value l) of
           (Some a, Some b) \<Rightarrow> char_of (16 * a + b) # unquote rest
         | _ \<Rightarrow> c # unquote (h # l # rest))
      else c # unquote (h # l # rest))"
| "unquote short = short"

definition plus_to_space :: "string \<Rightarrow> string" where
  "plus_to_space s = map (\<lambda>c. if c = CHR ''+'' then CHR '' '' else c) s"

definition name_value :: "string \<Rightarrow> (string \<times> string) list" where
  "name_value piece =
     (if piece = [] then []
      else if CHR ''='' \<notin> set piece then []
      else if after CHR ''='' piece = [] then []
      else [(unquote (plus_to_space (before CHR ''='' piece)),
             unquote (plus_to_space (after CHR ''='' piece)))])"

definition parse_qsl :: "string \<Rightarrow> (string \<times> string) list" where
  "parse_qsl q = concat (map name_value (split_on CHR ''&'' q))"

definition sample_parse_qs :: "string \<Rightarrow> (string \<rightharpoonup> string list)" where
  "sample_parse_qs q k =
     (case map snd (filter (\<lambda>(k', v). k' = k) (parse_qsl q)) of
        [] \<Rightarrow> None
      | vs \<Rightarrow> Some vs)"



subsection \<open>A sample world\<close>

text \<open>
  One account whose plant listing names plant \<open>p1\<close> twice; the plant has two devices,
  each with a manual program (number 0) and two schedules. Used to run the flow on
  concrete inputs.
\<close>

definition sample_env :: env where
  "sample_env =
     \<lparr>DEFAULT_AUTH_BASE_URL = ''https://auth.example'',
      AUTH_URL_ENDPOINT = ''/authorize'',
      DEFAULT_REDIRECT_URI = ''https://redirect.example/cb'',
      CLIENT_ID = ''default-id'',
      CLIENT_SECRET = ''default-secret'',
      SUBSCRIPTION_KEY = ''default-key'',
      hass_external_url = Inr (Some ''https://ha.example''),
      token_bytes = (\<lambda>k i. of_nat (17 * k + i)),
      generate_id = (\<lambda>n. ''hook'' @ replicate n CHR ''x''),
      urlparse_query = (\<lambda>u. Inr (url_query u)),
      parse_qs = sample_parse_qs,
      set_order = remdups,
      exchange_code_for_tokens = (\<lambda>h cid sec uri code. Inr (''tok_a'', ''tok_r'', ''2025-01-01T00:00:00Z'')),
      check_api_endpoint_health = (\<lambda>h. True),
      get_plants = (\<lambda>h. \<lparr>plants_status_code = 200,
                           plants_data = [\<lparr>plant_ident = ''p1''\<rparr>, \<lparr>plant_ident = ''p1''\<rparr>]\<rparr>),
      get_topology = (\<lambda>h p. \<lparr>topology_data =
                                [\<lparr>thermo_ident = ''d1'', thermo_name = ''Living Room''\<rparr>,
                                 \<lparr>thermo_ident = ''d2'', thermo_name = ''Bedroom''\<rparr>]\<rparr>),
      get_chronothermostat_programlist =
        (\<lambda>h p d. \<lparr>programs_data =
                     [\<lparr>number = 1, program_name = ''day''\<rparr>,
                      \<lparr>number = 0, program_name = ''manual''\<rparr>,
                      \<lparr>number = 2, program_name = ''night''\<rparr>]\<rparr>),
      set_subscribe_C2C_notifications =
        (\<lambda>h p url. \<lparr>status_code = 201, subscriptionId = ''sub-1''\<rparr>)\<rparr>"

definition sample_credentials :: "string \<rightharpoonup> string" where
  "sample_credentials =
     [''client_id'' \<mapsto> ''my-id'', ''client_secret'' \<mapsto> ''my-secret'',
      ''subscription_key'' \<mapsto> ''my-key'', ''external_url'' \<mapsto> ''https://ha.example'']"

definition new_flow :: flow where
  "new_flow =
     \<lparr>data = None, bticino_api = False, thermostat_options = None, current_entries = [],
      calls = [], ids_minted = 0, tokens_drawn = 0\<rparr>"

text \<open>The flow object after the credentials were submitted to the user step.\<close>

definition awaiting_callback :: flow where
  "awaiting_callback = new_flow\<lparr>data := Some sample_credentials, tokens_drawn := 1\<rparr>"

text \<open>Pasted callback URLs, and worlds in which the API is unusable.\<close>

definition sample_callback :: "string \<rightharpoonup> string" where
  "sample_callback = [''browser_url'' \<mapsto> ''https://x/cb?code=ABC&state=XYZ'']"

definition callback_other_state :: "string \<rightharpoonup> string" where
  "callback_other_state = [''browser_url'' \<mapsto> ''https://x/cb?code=ABC&state=OTHER'']"

definition callback_without_state :: "string \<rightharpoonup> string" where
  "callback_without_state = [''browser_url'' \<mapsto> ''https://x/cb?code=ABC'']"

definition unhealthy_env :: env where
  "unhealthy_env = sample_env\<lparr>check_api_endpoint_health := (\<lambda>h. False)\<rparr>"

definition plants_error_env :: env where
  "plants_error_env =
     sample_env\<lparr>get_plants := (\<lambda>h. \<lparr>plants_status_code = 500, plants_data = []\<rparr>)\<rparr>"

text \<open>
  A flow object at the selection step, with one candidate for each of two plants, and a
  world in which the subscription for plant \<open>p1\<close> is refused.
\<close>

definition selecting_devices :: flow where
  "selecting_devices =
     new_flow\<lparr>data := Some (sample_credentials(''code'' \<mapsto> ''ABC'', ''access_token'' \<mapsto> ''tok_a'',
                               ''refresh_token'' \<mapsto> ''tok_r'',
                               ''access_token_expires_on'' \<mapsto> ''2025-01-01T00:00:00Z'')),
              bticino_api := True,
              thermostat_options :=
                Some [(''p1'', \<lparr>cand_id = ''d1'', cand_name = ''Living Room'',
                                cand_webhook_id = ''hook'', cand_programs = []\<rparr>),
                      (''p2'', \<lparr>cand_id = ''d2'', cand_name = ''Bedroom'',
                                cand_webhook_id = ''hookx'', cand_programs = []\<rparr>)]\<rparr>"

definition subscription_refused_env :: env where
  "subscription_refused_env =
     sample_env\<lparr>set_subscribe_C2C_notifications :=
       (\<lambda>h p url. if p = ''p1'' then \<lparr>status_code = 500, subscriptionId = ''''\<rparr>
                   else \<lparr>status_code = 201, subscriptionId = ''sub-2''\<rparr>)\<rparr>"

subsection \<open>The host platform\<close>

text \<open>
  The flow manager of the platform is outside the repository; the spec describes it as a
  transport for the prompts and their answers. Flows may be in progress side by side:
  each is a flow object of its own, with the form or result it returned last, and all
  share the world (entries, remote calls, random draws). A flow begins at the user step
  with no input; an answer to a flow goes to the step named by the form it showed last,
  run in the world as it is by then; an abort, an entry or an exception ends the flow; a
  created entry is stored. An answer that does not fit the form is dropped.
\<close>

datatype answer =
    Credentials "string \<rightharpoonup> string"
  | Callback "string \<rightharpoonup> string"
  | Selection "string list"

datatype event = Begin | Answer nat answer

definition begin_flow :: "flow \<Rightarrow> flow" where
  "begin_flow w = w\<lparr>data := None, bticino_api := False, thermostat_options := None\<rparr>"

definition in_world :: "flow \<Rightarrow> flow \<Rightarrow> flow" where
  "in_world w obj =
     obj\<lparr>current_entries := current_entries w, calls := calls w,
         ids_minted := ids_minted w, tokens_drawn := tokens_drawn w\<rparr>"

definition dispatch :: "env \<Rightarrow> string \<Rightarrow> answer \<Rightarrow> flow_result action option" where
  "dispatch env step a =
     (case a of
        Credentials c \<Rightarrow> if step = ''user'' then Some (async_step_user env (Some c)) else None
      | Callback u \<Rightarrow>
          if step = ''get_authorize_code'' then Some (async_step_get_authorize_code env (Some u))
          else None
      | Selection names \<Rightarrow>
          if step = ''select_thermostats'' then Some (async_step_select_thermostats env names)
          else None)"

definition store_entry :: "(error + flow_result) \<times> flow \<Rightarrow> flow" where
  "store_entry r =
     (case fst r of
        Inr (CreateEntry title cfg) \<Rightarrow>
          (snd r)\<lparr>current_entries := current_entries (snd r) @ [(title, cfg)]\<rparr>
      | _ \<Rightarrow> snd r)"

text \<open>
  The platform: the world (a flow record of which only the world's fields count) and the
  flows in progress, in the order they began.
\<close>

type_synonym platform = "flow \<times> ((error + flow_result) \<times> flow) list"

definition handle :: "env \<Rightarrow> event \<Rightarrow> platform \<Rightarrow> platform" where
  "handle env ev p =
     (case ev of
        Begin \<Rightarrow>
          (let r = async_step_user env None (begin_flow (fst p))
           in (store_entry r, snd p @ [r]))
      | Answer i a \<Rightarrow>
          if i < length (snd p) then
            (case fst (snd p ! i) of
               Inr (ShowForm f) \<Rightarrow>
                 (case dispatch env (step_id f) a of
                    None \<Rightarrow> p
                  | Some step \<Rightarrow>
                      (let r = step (in_world (fst p) (snd (snd p ! i)))
                       in (store_entry r, (snd p)[i := r])))
             | _ \<Rightarrow> p)
          else p)"

primrec run_events :: "env \<Rightarrow> event list \<Rightarrow> platform \<Rightarrow> platform" where
  "run_events env [] p = p"
| "run_events env (ev # rest) p = run_events env rest (handle env ev p)"

text \<open>
  Two onboardings side by side: both begin, and both pass the user step, before either
  stores its entry.
\<close>

definition two_flows :: "event list" where
  "two_flows =
     [Begin, Begin,
      Answer 0 (Credentials sample_credentials), Answer 1 (Credentials sample_credentials),
      Answer 0 (Callback sample_callback), Answer 1 (Callback sample_callback),
      Answer 0 (Selection [''Bedroom'']), Answer 1 (Selection [''Bedroom''])]"

text \<open>
  An installation that already holds a configuration entry, and a flow that waits for
  the callback in it.
\<close>

definition configured :: flow where
  "configured =
     new_flow\<lparr>current_entries :=
       [(''Bticino X8000'',
         \<lparr>cfg_client_id = ''my-id'', cfg_client_secret = ''my-secret'',
          cfg_subscription_key = ''my-key'', cfg_external_url = ''https://ha.example'',
          cfg_access_token = ''tok_a'', cfg_refresh_token = ''tok_r'',
          cfg_access_token_expires_on = ''2025-01-01T00:00:00Z'',
          cfg_selected_thermostats = []\<rparr>)]\<rparr>"

definition awaiting_callback_configured :: flow where
  "awaiting_callback_configured = in_world configured awaiting_callback"


subsection \<open>States the flow passes through\<close>

text \<open>
  The flow object right after a successful token exchange: the code and the three token
  fields are stored in \<open>data\<close>, the API object exists, the exchange is in the trace.
\<close>

definition tokens_stored ::
  "flow \<Rightarrow> string \<Rightarrow> string \<Rightarrow> string \<Rightarrow> string \<Rightarrow> string \<times> string \<times> string \<Rightarrow> flow" where
  "tokens_stored s client_id client_secret redirect_uri code tokens =
     (case tokens of (access_token, refresh_token, access_token_expires_on) \<Rightarrow>
        s\<lparr>data := map_option
                    (\<lambda>d. d(''code'' \<mapsto> code, ''access_token'' \<mapsto> access_token,
                           ''refresh_token'' \<mapsto> refresh_token,
                           ''access_token_expires_on'' \<mapsto> access_token_expires_on))
                    (data s),
          bticino_api := True,
          calls := calls s @ [ExchangeCode client_id client_secret redirect_uri code]\<rparr>)"

section \<open>Properties\<close>

subsection \<open>Program Filter\<close>

lemma get_programs_from_api_run:
  "bticino_api s \<Longrightarrow>
   get_programs_from_api env plant_id topology_id s =
     (Inr (filter (\<lambda>p. number p \<noteq> 0)
             (programs_data (get_chronothermostat_programlist env (calls s) plant_id topology_id))),
      s\<lparr>calls := calls s @ [GetProgramList plant_id topology_id]\<rparr>)"
  by (simp add: get_programs_from_api_def bnd_def ret_def self_bticino_api_def remote_def)

text \<open>
  Claim C5. For every program list \<open>raw\<close> answered by the remote API, the Program Filter
  returns exactly the programs of \<open>raw\<close> whose number is not 0, in their original
  relative order: the result is \<open>raw\<close> filtered, a subsequence of \<open>raw\<close>, holds no
  program numbered 0 and every other program of \<open>raw\<close>. When \<open>raw\<close> is one program
  numbered 0 among N others, the result is those N, in order. An empty list gives the
  empty result.
\<close>

theorem program_filter_drops_zero:
  assumes api: "bticino_api s"
    and raw: "raw = programs_data (get_chronothermostat_programlist env (calls s) plant_id topology_id)"
  shows "\<exists>kept. fst (get_programs_from_api env plant_id topology_id s) = Inr kept
           \<and> kept = filter (\<lambda>p. number p \<noteq> 0) raw
           \<and> subseq kept raw
           \<and> (\<forall>p \<in> set kept. number p \<noteq> 0)
           \<and> (\<forall>p \<in> set raw. number p \<noteq> 0 \<longrightarrow> p \<in> set kept)
           \<and> (\<forall>xs z ys. raw = xs @ z # ys \<and> number z = 0 \<and> (\<forall>p \<in> set (xs @ ys). number p \<noteq> 0)
                  \<longrightarrow> kept = xs @ ys \<and> length kept = length xs + length ys)
           \<and> (raw = [] \<longrightarrow> kept = [])"
proof -
  let ?kept = "filter (\<lambda>p. number p \<noteq> 0) raw"
  have run: "fst (get_programs_from_api env plant_id topology_id s) = Inr ?kept"
    using api raw by (simp add: get_programs_from_api_run)
  have split: "\<forall>xs z ys. raw = xs @ z # ys \<and> number z = 0 \<and> (\<forall>p \<in> set (xs @ ys). number p \<noteq> 0)
                  \<longrightarrow> ?kept = xs @ ys \<and> length ?kept = length xs + length ys"
  proof (intro allI impI)
    fix xs z ys
    assume h: "raw = xs @ z # ys \<and> number z = 0 \<and> (\<forall>p \<in> set (xs @ ys). number p \<noteq> 0)"
    then have "filter (\<lambda>p. number p \<noteq> 0) xs = xs" "filter (\<lambda>p. number p \<noteq> 0) ys = ys"
      by (auto intro: filter_True)
    with h show "?kept = xs @ ys \<and> length ?kept = length xs + length ys" by simp
  qed
  show ?thesis
    using run split by (intro exI[of _ ?kept]) simp
qed

theorem program_filter_drops_zero_witness:
  "bticino_api (new_flow\<lparr>bticino_api := True\<rparr>)
   \<and> fst (get_programs_from_api sample_env ''p1'' ''d1'' (new_flow\<lparr>bticino_api := True\<rparr>)) =
       Inr [\<lparr>number = 1, program_name = ''day''\<rparr>, \<lparr>number = 2, program_name = ''night''\<rparr>]"
  using program_filter_drops_zero [of "new_flow\<lparr>bticino_api := True\<rparr>" _ sample_env "''p1''" "''d1''", OF _ refl]
  by (simp add: new_flow_def sample_env_def)

subsection \<open>Discovery loops\<close>

lemma thermo_loop_run:
  "bticino_api s \<Longrightarrow>
   \<exists>opts'. thermo_loop env p ts opts s =
      (Inr opts', s\<lparr>calls := calls s @ map (\<lambda>t. GetProgramList p (thermo_ident t)) ts,
                    ids_minted := ids_minted s + length ts\<rparr>)"
proof (induction ts arbitrary: s opts)
  case Nil
  then show ?case by (simp add: ret_def)
next
  case (Cons t ts)
  let ?s1 = "s\<lparr>ids_minted := Suc (ids_minted s), calls := calls s @ [GetProgramList p (thermo_ident t)]\<rparr>"
  have api1: "bticino_api ?s1" using Cons.prems by simp
  from Cons.IH [OF api1] show ?case
    using Cons.prems
    by (simp add: bnd_def new_webhook_id_def get_programs_from_api_run) 
qed

lemma plant_loop_run:
  "bticino_api s \<Longrightarrow>
   \<exists>opts' s'. plant_loop env ps opts s = (Inr opts', s')
      \<and> bticino_api s' \<and> data s' = data s \<and> thermostat_options s' = thermostat_options s
      \<and> current_entries s' = current_entries s \<and> tokens_drawn s' = tokens_drawn s
      \<and> (\<forall>q. count_list (calls s') (GetTopology q) = count_list (calls s) (GetTopology q) + count_list ps q)
      \<and> (\<forall>c. (\<forall>q. c \<noteq> GetTopology q) \<and> (\<forall>q d. c \<noteq> GetProgramList q d)
            \<longrightarrow> count_list (calls s') c = count_list (calls s) c)"
proof (induction ps arbitrary: s opts)
  case Nil
  then show ?case by (simp add: ret_def)
next
  case (Cons p ps)
  let ?s1 = "s\<lparr>calls := calls s @ [GetTopology p]\<rparr>"
  let ?ts = "topology_data (get_topology env (calls s) p)"
  have api1: "bticino_api ?s1" using Cons.prems by simp
  obtain o1 where t: "thermo_loop env p ?ts opts ?s1 =
      (Inr o1, ?s1\<lparr>calls := calls ?s1 @ map (\<lambda>t. GetProgramList p (thermo_ident t)) ?ts,
                    ids_minted := ids_minted ?s1 + length ?ts\<rparr>)"
    using thermo_loop_run [OF api1] by blast
  let ?s2 = "?s1\<lparr>calls := calls ?s1 @ map (\<lambda>t. GetProgramList p (thermo_ident t)) ?ts,
                    ids_minted := ids_minted ?s1 + length ?ts\<rparr>"
  have api2: "bticino_api ?s2" using Cons.prems by simp
  have nocount: "\<And>c. (\<forall>q d. c \<noteq> GetProgramList q d) \<Longrightarrow>
       count_list (map (\<lambda>t. GetProgramList p (thermo_ident t)) ?ts) c = 0"
    by (auto simp: count_list_0_iff)
  obtain o2 s' where l: "plant_loop env ps o1 ?s2 = (Inr o2, s')"
      and rest: "bticino_api s'" "data s' = data ?s2" "thermostat_options s' = thermostat_options ?s2"
        "current_entries s' = current_entries ?s2" "tokens_drawn s' = tokens_drawn ?s2"
        "\<forall>q. count_list (calls s') (GetTopology q) = count_list (calls ?s2) (GetTopology q) + count_list ps q"
        "\<forall>c. (\<forall>q. c \<noteq> GetTopology q) \<and> (\<forall>q d. c \<noteq> GetProgramList q d)
            \<longrightarrow> count_list (calls s') c = count_list (calls ?s2) c"
    using Cons.IH [OF api2, of o1] by blast
  have run: "plant_loop env (p # ps) opts s = (Inr o2, s')"
    using Cons.prems t l by (simp add: bnd_def self_bticino_api_def remote_def)
  show ?case
    unfolding run using rest by (auto simp: nocount)
qed

subsection \<open>From the pasted callback to the health check\<close>

lemma callback_reaches_health_check:
  assumes url: "user_input ''browser_url'' = Some browser_url"
    and query: "urlparse_query env browser_url = Inr query"
    and code: "parse_qs env query ''code'' = Some (code # more_codes)" "code \<noteq> []"
    and state: "parse_qs env query ''state'' = Some (state # more_states)" "state \<noteq> []"
    and stored: "data s = Some d" "d ''client_id'' = Some client_id"
      "d ''client_secret'' = Some client_secret"
    and tokens: "exchange_code_for_tokens env (calls s) client_id client_secret
                   (DEFAULT_REDIRECT_URI env) code = Inr tokens"
  shows "authorize_code_try env user_input s =
           bnd (remote CheckHealth (check_api_endpoint_health env))
             (\<lambda>healthy. if \<not> healthy then ret (Abort ''Auth Failed!'') else discover env)
             (tokens_stored s client_id client_secret (DEFAULT_REDIRECT_URI env) code tokens)"
proof -
  obtain a r e where t: "tokens = (a, r, e)" by (cases tokens) auto
  show ?thesis
    using assms unfolding t
    by (simp add: authorize_code_try_def tokens_stored_def bnd_def getitem_def lift_def ret_def
        first_item_def dict_get_def set_data_item_def self_data_def exchange_def remote_def)
qed

lemma tokens_stored_fields:
  "calls (tokens_stored s cid sec uri code tokens) = calls s @ [ExchangeCode cid sec uri code]"
  "bticino_api (tokens_stored s cid sec uri code tokens)"
  "thermostat_options (tokens_stored s cid sec uri code tokens) = thermostat_options s"
  "current_entries (tokens_stored s cid sec uri code tokens) = current_entries s"
  "tokens_drawn (tokens_stored s cid sec uri code tokens) = tokens_drawn s"
  "ids_minted (tokens_stored s cid sec uri code tokens) = ids_minted s"
  by (simp_all add: tokens_stored_def split: prod.splits)

subsection \<open>The sample inputs, evaluated\<close>

lemma sample_callback_pairs:
  "parse_qsl (url_query ''https://x/cb?code=ABC&state=XYZ'') = [(''code'', ''ABC''), (''state'', ''XYZ'')]"
  "parse_qsl (url_query ''https://x/cb?code=ABC&state=OTHER'') = [(''code'', ''ABC''), (''state'', ''OTHER'')]"
  "parse_qsl (url_query ''https://x/cb?code=ABC'') = [(''code'', ''ABC'')]"
  by code_simp+

lemma sample_callback_params:
  "sample_parse_qs (url_query ''https://x/cb?code=ABC&state=XYZ'') =
     [''code'' \<mapsto> [''ABC''], ''state'' \<mapsto> [''XYZ'']]"
  by (rule ext) (simp add: sample_parse_qs_def sample_callback_pairs)

lemma callback_other_state_params:
  "sample_parse_qs (url_query ''https://x/cb?code=ABC&state=OTHER'') =
     [''code'' \<mapsto> [''ABC''], ''state'' \<mapsto> [''OTHER'']]"
  by (rule ext) (simp add: sample_parse_qs_def sample_callback_pairs)

lemma callback_without_state_params:
  "sample_parse_qs (url_query ''https://x/cb?code=ABC'') = [''code'' \<mapsto> [''ABC'']]"
  by (rule ext) (simp add: sample_parse_qs_def sample_callback_pairs)

lemma sample_env_fields:
  "urlparse_query sample_env = (\<lambda>u. Inr (url_query u))"
  "parse_qs sample_env = sample_parse_qs"
  "DEFAULT_REDIRECT_URI sample_env = ''https://redirect.example/cb''"
  "exchange_code_for_tokens sample_env = (\<lambda>h cid sec uri code. Inr (''tok_a'', ''tok_r'', ''2025-01-01T00:00:00Z''))"
  "check_api_endpoint_health sample_env = (\<lambda>h. True)"
  "set_order sample_env = remdups"
  "get_plants sample_env = (\<lambda>h. \<lparr>plants_status_code = 200,
                           plants_data = [\<lparr>plant_ident = ''p1''\<rparr>, \<lparr>plant_ident = ''p1''\<rparr>]\<rparr>)"
  by (simp_all add: sample_env_def)

lemma awaiting_callback_fields:
  "data awaiting_callback = Some sample_credentials"
  "calls awaiting_callback = []"
  "current_entries awaiting_callback = []"
  "thermostat_options awaiting_callback = None"
  "sample_credentials ''client_id'' = Some ''my-id''"
  "sample_credentials ''client_secret'' = Some ''my-secret''"
  by (simp_all add: awaiting_callback_def new_flow_def sample_credentials_def)

subsection \<open>Health check\<close>

text \<open>
  Claim C3, as the code has it. If the API health check returns false right after a
  successful token exchange, the step aborts the flow with reason \<open>Auth Failed!\<close>
  (the literal of the code; the reason is not \<open>auth_failed\<close>). The only remote calls
  of the attempt are the token exchange and the health check: no plant listing, topology,
  program or subscription call follows, and no candidate collection is stored.
\<close>

theorem health_check_failure_aborts:
  assumes url: "user_input ''browser_url'' = Some browser_url"
    and query: "urlparse_query env browser_url = Inr query"
    and code: "parse_qs env query ''code'' = Some (code # more_codes)" "code \<noteq> []"
    and state: "parse_qs env query ''state'' = Some (state # more_states)" "state \<noteq> []"
    and stored: "data s = Some d" "d ''client_id'' = Some client_id"
      "d ''client_secret'' = Some client_secret"
    and tokens: "exchange_code_for_tokens env (calls s) client_id client_secret
                   (DEFAULT_REDIRECT_URI env) code = Inr tokens"
    and unhealthy: "\<not> check_api_endpoint_health env
                      (calls s @ [ExchangeCode client_id client_secret (DEFAULT_REDIRECT_URI env) code])"
  shows "fst (async_step_get_authorize_code env (Some user_input) s) = Inr (Abort ''Auth Failed!'')
       \<and> calls (snd (async_step_get_authorize_code env (Some user_input) s)) =
           calls s @ [ExchangeCode client_id client_secret (DEFAULT_REDIRECT_URI env) code, CheckHealth]
       \<and> thermostat_options (snd (async_step_get_authorize_code env (Some user_input) s)) =
           thermostat_options s"
proof -
  let ?s1 = "tokens_stored s client_id client_secret (DEFAULT_REDIRECT_URI env) code tokens"
  have reach: "authorize_code_try env user_input s =
           bnd (remote CheckHealth (check_api_endpoint_health env))
             (\<lambda>healthy. if \<not> healthy then ret (Abort ''Auth Failed!'') else discover env) ?s1"
    by (rule callback_reaches_health_check; fact)
  have "authorize_code_try env user_input s =
          (Inr (Abort ''Auth Failed!''), ?s1\<lparr>calls := calls ?s1 @ [CheckHealth]\<rparr>)"
    using unhealthy
    by (simp add: reach
        bnd_def remote_def ret_def tokens_stored_fields)
  then show ?thesis
    by (simp add: async_step_get_authorize_code_def tokens_stored_fields)
qed

theorem health_check_failure_aborts_witness:
  "\<not> check_api_endpoint_health unhealthy_env
        [ExchangeCode ''my-id'' ''my-secret'' ''https://redirect.example/cb'' ''ABC'']
   \<and> fst (async_step_get_authorize_code unhealthy_env (Some sample_callback) awaiting_callback) =
        Inr (Abort ''Auth Failed!'')
   \<and> calls (snd (async_step_get_authorize_code unhealthy_env (Some sample_callback) awaiting_callback)) =
        [ExchangeCode ''my-id'' ''my-secret'' ''https://redirect.example/cb'' ''ABC'', CheckHealth]"
proof -
  have down: "\<not> check_api_endpoint_health unhealthy_env
        [ExchangeCode ''my-id'' ''my-secret'' ''https://redirect.example/cb'' ''ABC'']"
    by (simp add: unhealthy_env_def)
  have "fst (async_step_get_authorize_code unhealthy_env (Some sample_callback) awaiting_callback) =
          Inr (Abort ''Auth Failed!'')
       \<and> calls (snd (async_step_get_authorize_code unhealthy_env (Some sample_callback) awaiting_callback)) =
           calls awaiting_callback @
             [ExchangeCode ''my-id'' ''my-secret'' (DEFAULT_REDIRECT_URI unhealthy_env) ''ABC'', CheckHealth]
       \<and> thermostat_options (snd (async_step_get_authorize_code unhealthy_env (Some sample_callback)
            awaiting_callback)) = thermostat_options awaiting_callback"
    by (rule health_check_failure_aborts
          [where browser_url = "''https://x/cb?code=ABC&state=XYZ''"
             and query = "url_query ''https://x/cb?code=ABC&state=XYZ''"
             and more_codes = "[]" and state = "''XYZ''" and more_states = "[]"
             and d = sample_credentials
             and tokens = "(''tok_a'', ''tok_r'', ''2025-01-01T00:00:00Z'')"])
       (simp_all add: unhealthy_env_def sample_env_fields awaiting_callback_fields sample_callback_def
          sample_callback_params)
  then show ?thesis
    using down by (simp add: unhealthy_env_def sample_env_fields awaiting_callback_fields)
qed

text \<open>
  With an unhealthy API in the sample world the abort reason differs from
  \<open>auth_failed\<close>.
\<close>

theorem health_check_abort_reason_counterexample:
  "fst (async_step_get_authorize_code unhealthy_env (Some sample_callback) awaiting_callback) \<noteq>
     Inr (Abort ''auth_failed'')"
proof -
  let ?s1 = "tokens_stored awaiting_callback ''my-id'' ''my-secret''
               (DEFAULT_REDIRECT_URI unhealthy_env) ''ABC'' (''tok_a'', ''tok_r'', ''2025-01-01T00:00:00Z'')"
  have "authorize_code_try unhealthy_env sample_callback awaiting_callback =
          bnd (remote CheckHealth (check_api_endpoint_health unhealthy_env))
            (\<lambda>healthy. if \<not> healthy then ret (Abort ''Auth Failed!'') else discover unhealthy_env)
            ?s1"
    by (rule callback_reaches_health_check
          [where browser_url = "''https://x/cb?code=ABC&state=XYZ''"
             and query = "url_query ''https://x/cb?code=ABC&state=XYZ''"
             and more_codes = "[]" and state = "''XYZ''" and more_states = "[]"
             and d = sample_credentials])
       (simp_all add: unhealthy_env_def sample_env_fields awaiting_callback_fields sample_callback_def
          sample_callback_params)
  then have "authorize_code_try unhealthy_env sample_callback awaiting_callback =
          (Inr (Abort ''Auth Failed!''), ?s1\<lparr>calls := calls ?s1 @ [CheckHealth]\<rparr>)"
    by (simp add: bnd_def remote_def ret_def unhealthy_env_def)
  then show ?thesis
    by (simp add: async_step_get_authorize_code_def)
qed

subsection \<open>Plant listing with an error status\<close>

text \<open>
  Claim C10. If the plant listing answers with a status code other than 200, the step
  raises \<open>UnboundLocalError\<close>, a \<open>NameError\<close>: the form reads the local
  \<open>thermostat_options\<close>, bound only in the branch of status 200. The error is not a
  \<open>ValueError\<close>, so the handler of the step does not catch it; the step shows no form
  and does not abort. The plant listing is the last remote call.
\<close>

theorem plants_error_status_raises_NameError:
  assumes url: "user_input ''browser_url'' = Some browser_url"
    and query: "urlparse_query env browser_url = Inr query"
    and code: "parse_qs env query ''code'' = Some (code # more_codes)" "code \<noteq> []"
    and state: "parse_qs env query ''state'' = Some (state # more_states)" "state \<noteq> []"
    and stored: "data s = Some d" "d ''client_id'' = Some client_id"
      "d ''client_secret'' = Some client_secret"
    and tokens: "exchange_code_for_tokens env (calls s) client_id client_secret
                   (DEFAULT_REDIRECT_URI env) code = Inr tokens"
    and healthy: "check_api_endpoint_health env
                      (calls s @ [ExchangeCode client_id client_secret (DEFAULT_REDIRECT_URI env) code])"
    and status: "plants_status_code (get_plants env
                      (calls s @ [ExchangeCode client_id client_secret (DEFAULT_REDIRECT_URI env) code,
                                  CheckHealth])) \<noteq> 200"
  shows "\<exists>e. fst (async_step_get_authorize_code env (Some user_input) s) = Inl e \<and> is_NameError e
           \<and> e \<noteq> ValueError
           \<and> thermostat_options (snd (async_step_get_authorize_code env (Some user_input) s)) =
               thermostat_options s
           \<and> calls (snd (async_step_get_authorize_code env (Some user_input) s)) =
               calls s @ [ExchangeCode client_id client_secret (DEFAULT_REDIRECT_URI env) code,
                          CheckHealth, GetPlants]"
proof -
  let ?s1 = "tokens_stored s client_id client_secret (DEFAULT_REDIRECT_URI env) code tokens"
  have reach: "authorize_code_try env user_input s =
           bnd (remote CheckHealth (check_api_endpoint_health env))
             (\<lambda>healthy. if \<not> healthy then ret (Abort ''Auth Failed!'') else discover env) ?s1"
    by (rule callback_reaches_health_check; fact)
  have "authorize_code_try env user_input s =
          (Inl UnboundLocalError, ?s1\<lparr>calls := calls ?s1 @ [CheckHealth, GetPlants]\<rparr>)"
    using healthy status
    by (simp add: reach
        bnd_def remote_def ret_def raise_err_def discover_def self_bticino_api_def tokens_stored_fields)
  then show ?thesis
    by (simp add: async_step_get_authorize_code_def tokens_stored_fields is_NameError_def)
qed

theorem plants_error_status_raises_NameError_witness:
  "plants_status_code (get_plants plants_error_env
       [ExchangeCode ''my-id'' ''my-secret'' ''https://redirect.example/cb'' ''ABC'', CheckHealth]) \<noteq> 200
   \<and> fst (async_step_get_authorize_code plants_error_env (Some sample_callback) awaiting_callback) =
        Inl UnboundLocalError"
proof -
  have status: "plants_status_code (get_plants plants_error_env
       [ExchangeCode ''my-id'' ''my-secret'' ''https://redirect.example/cb'' ''ABC'', CheckHealth]) \<noteq> 200"
    by (simp add: plants_error_env_def)
  have "\<exists>e. fst (async_step_get_authorize_code plants_error_env (Some sample_callback) awaiting_callback) = Inl e
           \<and> is_NameError e \<and> e \<noteq> ValueError
           \<and> thermostat_options (snd (async_step_get_authorize_code plants_error_env (Some sample_callback)
                awaiting_callback)) = thermostat_options awaiting_callback
           \<and> calls (snd (async_step_get_authorize_code plants_error_env (Some sample_callback)
                awaiting_callback)) =
               calls awaiting_callback @
                 [ExchangeCode ''my-id'' ''my-secret'' (DEFAULT_REDIRECT_URI plants_error_env) ''ABC'',
                  CheckHealth, GetPlants]"
    by (rule plants_error_status_raises_NameError
          [where browser_url = "''https://x/cb?code=ABC&state=XYZ''"
             and query = "url_query ''https://x/cb?code=ABC&state=XYZ''"
             and more_codes = "[]" and state = "''XYZ''" and more_states = "[]"
             and d = sample_credentials
             and tokens = "(''tok_a'', ''tok_r'', ''2025-01-01T00:00:00Z'')"])
       (simp_all add: plants_error_env_def sample_env_fields awaiting_callback_fields sample_callback_def
          sample_callback_params)
  then show ?thesis
    using status by (auto simp: is_NameError_def)
qed

subsection \<open>Callback parsing\<close>

lemma user_step_shows_authorize_form:
  assumes "current_entries s = []" "d ''client_id'' = Some client_id"
  shows "async_step_user env (Some d) s =
           (Inr (ShowForm (authorize_form (authorize_message
              (DEFAULT_AUTH_BASE_URL env @ AUTH_URL_ENDPOINT env @ ''?''
               @ ''client_id='' @ client_id
               @ ''&response_type=code''
               @ ''&state='' @ hexlify (map (token_bytes env (tokens_drawn s)) [0..<16])
               @ ''&redirect_uri='' @ DEFAULT_REDIRECT_URI env)))),
            s\<lparr>data := Some d, tokens_drawn := Suc (tokens_drawn s)\<rparr>)"
  using assms
  by (simp add: async_step_user_def get_authorization_url_def token_hex_def bnd_def ret_def
      getitem_def Let_def del: append_assoc append.simps)

lemma callback_without_code_or_state:
  assumes url: "user_input ''browser_url'' = Some browser_url"
    and query: "urlparse_query env browser_url = Inr query"
    and lists: "parse_qs env query ''code'' \<noteq> Some []" "parse_qs env query ''state'' \<noteq> Some []"
    and lacking: "(\<forall>v vs. parse_qs env query ''code'' = Some (v # vs) \<longrightarrow> v = [])
                \<or> (\<forall>v vs. parse_qs env query ''state'' = Some (v # vs) \<longrightarrow> v = [])"
  shows "authorize_code_try env user_input s = (Inl ValueError, s)"
proof -
  have "\<exists>c cs. dict_get (parse_qs env query) ''code'' [''''] = c # cs"
    using lists(1) by (cases "parse_qs env query ''code''") (auto simp: dict_get_def neq_Nil_conv)
  then obtain c cs where c: "dict_get (parse_qs env query) ''code'' [''''] = c # cs"
    by blast
  have "\<exists>t ts. dict_get (parse_qs env query) ''state'' [''''] = t # ts"
    using lists(2) by (cases "parse_qs env query ''state''") (auto simp: dict_get_def neq_Nil_conv)
  then obtain t ts where t: "dict_get (parse_qs env query) ''state'' [''''] = t # ts"
    by blast
  have "c = [] \<or> t = []"
    using lacking c t by (auto simp: dict_get_def split: option.splits)
  then show ?thesis
    using url query c t
    by (auto simp: authorize_code_try_def bnd_def getitem_def lift_def ret_def raise_err_def
        first_item_def Let_def)
qed

text \<open>
  Claim C2, as the code has it. Let the query of the pasted URL lack a non-empty
  \<open>code\<close> or a non-empty \<open>state\<close> (the key is absent, or its first value is empty;
  \<open>parse_qs\<close> never answers with an empty list of values), in a flow that holds the
  credentials. The body of the \<open>try\<close> block raises \<open>ValueError\<close> before any remote
  call and before any change of the flow object; the step handles it, raises nothing, and
  runs the user step with the stored credentials. With no configuration entry present it
  shows the form of step \<open>get_authorize_code\<close> again; the message under \<open>base\<close> is
  the authorization prompt with an authorization URL built anew, with the next state
  token (the text of the \<open>ValueError\<close> goes to the log only); one token is drawn and
  nothing else changes. With a configuration entry present by then, the step aborts with
  \<open>single_instance_allowed\<close> and changes nothing.
\<close>

theorem missing_code_or_state_reprompts:
  assumes url: "user_input ''browser_url'' = Some browser_url"
    and query: "urlparse_query env browser_url = Inr query"
    and lists: "parse_qs env query ''code'' \<noteq> Some []" "parse_qs env query ''state'' \<noteq> Some []"
    and lacking: "(\<forall>v vs. parse_qs env query ''code'' = Some (v # vs) \<longrightarrow> v = [])
                \<or> (\<forall>v vs. parse_qs env query ''state'' = Some (v # vs) \<longrightarrow> v = [])"
    and stored: "data s = Some d" "d ''client_id'' = Some client_id"
  shows "authorize_code_try env user_input s = (Inl ValueError, s)
       \<and> async_step_get_authorize_code env (Some user_input) s =
           (if current_entries s = [] then
              (Inr (ShowForm
                 \<lparr>step_id = ''get_authorize_code'',
                  data_schema = [StrField ''browser_url'' ''Paste here the browser URL''
                                   (Some ''Paste here the browser URL'')],
                  errors = Some [(''base'',
                    ''Click the link below to authorize Bticino X8000. After authorization, paste the browser URL here.''
                    @ [CHR 0x0A, CHR 0x0A]
                    @ DEFAULT_AUTH_BASE_URL env @ AUTH_URL_ENDPOINT env
                    @ ''?client_id='' @ client_id
                    @ ''&response_type=code&state=''
                    @ hexlify (map (token_bytes env (tokens_drawn s)) [0..<16])
                    @ ''&redirect_uri='' @ DEFAULT_REDIRECT_URI env)]\<rparr>),
               s\<lparr>tokens_drawn := Suc (tokens_drawn s)\<rparr>)
            else (Inr (Abort ''single_instance_allowed''), s))"
proof -
  have raised: "authorize_code_try env user_input s = (Inl ValueError, s)"
    by (rule callback_without_code_or_state; fact)
  have again: "async_step_get_authorize_code env (Some user_input) s = async_step_user env (Some d) s"
    using stored(1)
    by (simp add: async_step_get_authorize_code_def raised authorize_code_no_input_def bnd_def
        self_data_def)
  have same: "s\<lparr>data := Some d, tokens_drawn := Suc (tokens_drawn s)\<rparr> =
              s\<lparr>tokens_drawn := Suc (tokens_drawn s)\<rparr>"
    using stored(1) by (cases s) simp
  show ?thesis
  proof (cases "current_entries s = []")
    case True
    have "async_step_user env (Some d) s =
           (Inr (ShowForm (authorize_form (authorize_message
              (DEFAULT_AUTH_BASE_URL env @ AUTH_URL_ENDPOINT env @ ''?''
               @ ''client_id='' @ client_id
               @ ''&response_type=code''
               @ ''&state='' @ hexlify (map (token_bytes env (tokens_drawn s)) [0..<16])
               @ ''&redirect_uri='' @ DEFAULT_REDIRECT_URI env)))),
            s\<lparr>data := Some d, tokens_drawn := Suc (tokens_drawn s)\<rparr>)"
      using True stored(2) by (rule user_step_shows_authorize_form)
    then show ?thesis
      using True raised unfolding again same
      by (simp add: authorize_form_def authorize_message_def)
  next
    case False
    then have "async_step_user env (Some d) s = (Inr (Abort ''single_instance_allowed''), s)"
      by (simp add: async_step_user_def ret_def Let_def)
    then show ?thesis
      using False raised unfolding again by simp
  qed
qed

theorem missing_code_or_state_reprompts_witness:
  "parse_qs sample_env (url_query ''https://x/cb?code=ABC'') ''state'' = None
   \<and> current_entries awaiting_callback = []
   \<and> authorize_code_try sample_env callback_without_state awaiting_callback =
        (Inl ValueError, awaiting_callback)
   \<and> async_step_get_authorize_code sample_env (Some callback_without_state) awaiting_callback =
        (Inr (ShowForm
           \<lparr>step_id = ''get_authorize_code'',
            data_schema = [StrField ''browser_url'' ''Paste here the browser URL''
                             (Some ''Paste here the browser URL'')],
            errors = Some [(''base'',
              ''Click the link below to authorize Bticino X8000. After authorization, paste the browser URL here.''
              @ [CHR 0x0A, CHR 0x0A]
              @ ''https://auth.example/authorize?client_id=my-id&response_type=code&state=1112131415161718191a1b1c1d1e1f20&redirect_uri=https://redirect.example/cb'')]\<rparr>),
         awaiting_callback\<lparr>tokens_drawn := 2\<rparr>)"
proof -
  have absent: "parse_qs sample_env (url_query ''https://x/cb?code=ABC'') ''state'' = None"
    by (simp add: sample_env_fields callback_without_state_params)
  have drawn: "tokens_drawn awaiting_callback = 1"
    by (simp add: awaiting_callback_def new_flow_def)
  have token: "hexlify (map (token_bytes sample_env (Suc 0)) [0..<16]) = ''1112131415161718191a1b1c1d1e1f20''"
    by code_simp
  have urls: "DEFAULT_AUTH_BASE_URL sample_env = ''https://auth.example''"
    "AUTH_URL_ENDPOINT sample_env = ''/authorize''"
    by (simp_all add: sample_env_def)
  have "authorize_code_try sample_env callback_without_state awaiting_callback =
          (Inl ValueError, awaiting_callback)
       \<and> async_step_get_authorize_code sample_env (Some callback_without_state) awaiting_callback =
           (if current_entries awaiting_callback = [] then
              (Inr (ShowForm
                 \<lparr>step_id = ''get_authorize_code'',
                  data_schema = [StrField ''browser_url'' ''Paste here the browser URL''
                                   (Some ''Paste here the browser URL'')],
                  errors = Some [(''base'',
                    ''Click the link below to authorize Bticino X8000. After authorization, paste the browser URL here.''
                    @ [CHR 0x0A, CHR 0x0A]
                    @ DEFAULT_AUTH_BASE_URL sample_env @ AUTH_URL_ENDPOINT sample_env
                    @ ''?client_id='' @ ''my-id''
                    @ ''&response_type=code&state=''
                    @ hexlify (map (token_bytes sample_env (tokens_drawn awaiting_callback)) [0..<16])
                    @ ''&redirect_uri='' @ DEFAULT_REDIRECT_URI sample_env)]\<rparr>),
               awaiting_callback\<lparr>tokens_drawn := Suc (tokens_drawn awaiting_callback)\<rparr>)
            else (Inr (Abort ''single_instance_allowed''), awaiting_callback))"
    by (rule missing_code_or_state_reprompts
          [where browser_url = "''https://x/cb?code=ABC''"
             and query = "url_query ''https://x/cb?code=ABC''" and d = sample_credentials])
       (simp_all add: sample_env_fields awaiting_callback_fields callback_without_state_def
          callback_without_state_params)
  then show ?thesis
    using absent
    by (simp add: awaiting_callback_fields drawn token urls sample_env_fields)
qed

text \<open>
  In an installation that holds a configuration entry by the time the callback is pasted,
  the callback without \<open>state\<close> ends the flow: the step aborts and shows no form.
\<close>

theorem missing_state_with_entry_counterexample:
  "sample_parse_qs (url_query ''https://x/cb?code=ABC'') ''state'' = None
   \<and> fst (async_step_get_authorize_code sample_env (Some callback_without_state)
            awaiting_callback_configured) = Inr (Abort ''single_instance_allowed'')"
  by code_simp

text \<open>
  Claim C9. The state of the callback is checked for presence only. For two pasted URLs
  whose parsed queries agree on every key but \<open>state\<close>, each with a non-empty first
  \<open>state\<close> value, the step returns the same result and leaves the same flow object and
  the same remote calls, from any flow object: no token generated earlier is stored in it
  to compare with.
\<close>

theorem callback_state_is_ignored:
  assumes url1: "input1 ''browser_url'' = Some url1"
    and url2: "input2 ''browser_url'' = Some url2"
    and query1: "urlparse_query env url1 = Inr query1"
    and query2: "urlparse_query env url2 = Inr query2"
    and same: "\<forall>k. k \<noteq> ''state'' \<longrightarrow> parse_qs env query1 k = parse_qs env query2 k"
    and state1: "parse_qs env query1 ''state'' = Some (state1 # more1)" "state1 \<noteq> []"
    and state2: "parse_qs env query2 ''state'' = Some (state2 # more2)" "state2 \<noteq> []"
  shows "async_step_get_authorize_code env (Some input1) s =
         async_step_get_authorize_code env (Some input2) s"
proof -
  have code: "dict_get (parse_qs env query1) ''code'' [''''] = dict_get (parse_qs env query2) ''code'' ['''']"
    using same by (simp add: dict_get_def)
  have st1: "dict_get (parse_qs env query1) ''state'' [''''] = state1 # more1"
    using state1 by (simp add: dict_get_def)
  have st2: "dict_get (parse_qs env query2) ''state'' [''''] = state2 # more2"
    using state2 by (simp add: dict_get_def)
  have "authorize_code_try env input1 s = authorize_code_try env input2 s"
    using url1 url2 query1 query2 state1(2) state2(2)
    by (cases "dict_get (parse_qs env query2) ''code'' ['''']")
      (simp_all add: authorize_code_try_def bnd_def getitem_def lift_def ret_def raise_err_def
        first_item_def Let_def code st1 st2)
  then show ?thesis
    by (simp add: async_step_get_authorize_code_def)
qed

theorem callback_state_is_ignored_witness:
  "async_step_get_authorize_code sample_env (Some sample_callback) awaiting_callback =
   async_step_get_authorize_code sample_env (Some callback_other_state) awaiting_callback"
  by (rule callback_state_is_ignored
        [where ?url1.0 = "''https://x/cb?code=ABC&state=XYZ''"
           and ?url2.0 = "''https://x/cb?code=ABC&state=OTHER''"
           and ?query1.0 = "url_query ''https://x/cb?code=ABC&state=XYZ''"
           and ?query2.0 = "url_query ''https://x/cb?code=ABC&state=OTHER''"
           and ?state1.0 = "''XYZ''" and ?more1.0 = "[]" and ?state2.0 = "''OTHER''" and ?more2.0 = "[]"])
     (simp_all add: sample_env_fields sample_callback_def callback_other_state_def
        sample_callback_params callback_other_state_params)

subsection \<open>Plant deduplication\<close>

lemma count_list_distinct:
  "distinct xs \<Longrightarrow> count_list xs x = (if x \<in> set xs then 1 else 0)"
  by (induction xs) auto

lemma discover_run:
  assumes api: "bticino_api s"
    and status: "plants_status_code (get_plants env (calls s)) = 200"
  shows "\<exists>opts s'. discover env s = (Inr (ShowForm (select_form opts)), s')
           \<and> thermostat_options s' = Some opts
           \<and> (\<forall>q. count_list (calls s') (GetTopology q) =
                    count_list (calls s) (GetTopology q)
                    + count_list (set_order env (map plant_ident (plants_data (get_plants env (calls s))))) q)"
proof -
  let ?ids = "set_order env (map plant_ident (plants_data (get_plants env (calls s))))"
  let ?s1 = "s\<lparr>calls := calls s @ [GetPlants]\<rparr>"
  have api1: "bticino_api ?s1" using api by simp
  obtain opts s2 where loop: "plant_loop env ?ids [] ?s1 = (Inr opts, s2)"
    and counts: "\<forall>q. count_list (calls s2) (GetTopology q) =
                   count_list (calls ?s1) (GetTopology q) + count_list ?ids q"
    using plant_loop_run [OF api1, of env ?ids "[]"] by blast
  have "discover env s = (Inr (ShowForm (select_form opts)), s2\<lparr>thermostat_options := Some opts\<rparr>)"
    using api status loop
    by (simp add: discover_def bnd_def ret_def remote_def self_bticino_api_def)
  then show ?thesis
    using counts by simp
qed

text \<open>
  Claim C6. Plant identifiers are deduplicated before the topology queries. When the
  token exchange succeeds, the API is healthy and the plant listing has status 200, the
  step queries the topology once for every identifier of the raw listing, however often
  the listing repeats it, and for no other identifier. The iteration order of the Python
  set is a parameter: any order that lists each identifier of the set once.
\<close>

theorem topology_queried_once_per_plant:
  assumes url: "user_input ''browser_url'' = Some browser_url"
    and query: "urlparse_query env browser_url = Inr query"
    and code: "parse_qs env query ''code'' = Some (code # more_codes)" "code \<noteq> []"
    and state: "parse_qs env query ''state'' = Some (state # more_states)" "state \<noteq> []"
    and stored: "data s = Some d" "d ''client_id'' = Some client_id"
      "d ''client_secret'' = Some client_secret"
    and tokens: "exchange_code_for_tokens env (calls s) client_id client_secret
                   (DEFAULT_REDIRECT_URI env) code = Inr tokens"
    and healthy: "check_api_endpoint_health env
                      (calls s @ [ExchangeCode client_id client_secret (DEFAULT_REDIRECT_URI env) code])"
    and listing: "plants = get_plants env
                      (calls s @ [ExchangeCode client_id client_secret (DEFAULT_REDIRECT_URI env) code,
                                  CheckHealth])"
    and status: "plants_status_code plants = 200"
    and order: "distinct (set_order env (map plant_ident (plants_data plants)))"
      "set (set_order env (map plant_ident (plants_data plants))) =
         set (map plant_ident (plants_data plants))"
  shows "\<forall>plant_id.
           count_list (calls (snd (async_step_get_authorize_code env (Some user_input) s)))
             (GetTopology plant_id) =
           count_list (calls s) (GetTopology plant_id)
           + (if plant_id \<in> set (map plant_ident (plants_data plants)) then 1 else 0)"
proof -
  let ?s1 = "tokens_stored s client_id client_secret (DEFAULT_REDIRECT_URI env) code tokens"
  let ?s2 = "?s1\<lparr>calls := calls ?s1 @ [CheckHealth]\<rparr>"
  let ?ids = "set_order env (map plant_ident (plants_data plants))"
  have reach: "authorize_code_try env user_input s =
           bnd (remote CheckHealth (check_api_endpoint_health env))
             (\<lambda>healthy. if \<not> healthy then ret (Abort ''Auth Failed!'') else discover env) ?s1"
    by (rule callback_reaches_health_check; fact)
  have body: "authorize_code_try env user_input s = discover env ?s2"
    using healthy by (simp add: reach bnd_def remote_def tokens_stored_fields)
  have calls2: "calls ?s2 = calls s @ [ExchangeCode client_id client_secret (DEFAULT_REDIRECT_URI env) code,
                                  CheckHealth]"
    by (simp add: tokens_stored_fields)
  have api2: "bticino_api ?s2" by (simp add: tokens_stored_fields)
  have status2: "plants_status_code (get_plants env (calls ?s2)) = 200"
    using status listing unfolding calls2 by simp
  obtain opts s' where run: "discover env ?s2 = (Inr (ShowForm (select_form opts)), s')"
    and counts: "\<forall>q. count_list (calls s') (GetTopology q) =
                    count_list (calls ?s2) (GetTopology q)
                    + count_list (set_order env (map plant_ident (plants_data (get_plants env (calls ?s2))))) q"
    using discover_run [OF api2 status2] by blast
  have step: "async_step_get_authorize_code env (Some user_input) s = (Inr (ShowForm (select_form opts)), s')"
    by (simp add: async_step_get_authorize_code_def body run)
  have ids: "get_plants env (calls ?s2) = plants"
    using listing unfolding calls2 by simp
  show ?thesis
  proof
    fix plant_id
    have "count_list (calls s') (GetTopology plant_id) =
            count_list (calls ?s2) (GetTopology plant_id) + count_list ?ids plant_id"
      using counts ids by simp
    moreover have "count_list ?ids plant_id = (if plant_id \<in> set ?ids then 1 else 0)"
      using order(1) by (rule count_list_distinct)
    moreover have "count_list (calls ?s2) (GetTopology plant_id) = count_list (calls s) (GetTopology plant_id)"
      unfolding calls2 by simp
    ultimately show "count_list (calls (snd (async_step_get_authorize_code env (Some user_input) s)))
             (GetTopology plant_id) =
           count_list (calls s) (GetTopology plant_id)
           + (if plant_id \<in> set (map plant_ident (plants_data plants)) then 1 else 0)"
      using order(2) by (simp add: step)
  qed
qed

theorem topology_queried_once_per_plant_witness:
  "map plant_ident (plants_data (get_plants sample_env
       [ExchangeCode ''my-id'' ''my-secret'' ''https://redirect.example/cb'' ''ABC'', CheckHealth])) =
     [''p1'', ''p1'']
   \<and> count_list (calls (snd (async_step_get_authorize_code sample_env (Some sample_callback)
                               awaiting_callback))) (GetTopology ''p1'') = 1"
proof -
  let ?plants = "get_plants sample_env
       [ExchangeCode ''my-id'' ''my-secret'' ''https://redirect.example/cb'' ''ABC'', CheckHealth]"
  have raw: "map plant_ident (plants_data ?plants) = [''p1'', ''p1'']"
    by (simp add: sample_env_fields)
  have "\<forall>plant_id.
           count_list (calls (snd (async_step_get_authorize_code sample_env (Some sample_callback)
                                     awaiting_callback))) (GetTopology plant_id) =
           count_list (calls awaiting_callback) (GetTopology plant_id)
           + (if plant_id \<in> set (map plant_ident (plants_data ?plants)) then 1 else 0)"
    by (rule topology_queried_once_per_plant
          [where browser_url = "''https://x/cb?code=ABC&state=XYZ''"
             and query = "url_query ''https://x/cb?code=ABC&state=XYZ''"
             and code = "''ABC''"
             and more_codes = "[]" and state = "''XYZ''" and more_states = "[]"
             and d = sample_credentials and client_id = "''my-id''" and client_secret = "''my-secret''"
             and tokens = "(''tok_a'', ''tok_r'', ''2025-01-01T00:00:00Z'')"])
       (simp_all add: sample_env_fields awaiting_callback_fields sample_callback_def
          sample_callback_params)
  then have "count_list (calls (snd (async_step_get_authorize_code sample_env (Some sample_callback)
                                     awaiting_callback))) (GetTopology ''p1'') =
           count_list (calls awaiting_callback) (GetTopology ''p1'')
           + (if ''p1'' \<in> set (map plant_ident (plants_data ?plants)) then 1 else 0)"
    by (rule spec)
  then show ?thesis
    using raw by (simp add: awaiting_callback_fields)
qed

subsection \<open>Candidates of a plant with two devices\<close>

lemma sample_env_discovery_fields:
  "generate_id sample_env = (\<lambda>n. ''hook'' @ replicate n CHR ''x'')"
  "get_topology sample_env = (\<lambda>h p. \<lparr>topology_data =
                                [\<lparr>thermo_ident = ''d1'', thermo_name = ''Living Room''\<rparr>,
                                 \<lparr>thermo_ident = ''d2'', thermo_name = ''Bedroom''\<rparr>]\<rparr>)"
  "get_chronothermostat_programlist sample_env =
        (\<lambda>h p d. \<lparr>programs_data =
                     [\<lparr>number = 1, program_name = ''day''\<rparr>,
                      \<lparr>number = 0, program_name = ''manual''\<rparr>,
                      \<lparr>number = 2, program_name = ''night''\<rparr>]\<rparr>)"
  by (simp_all add: sample_env_def)

text \<open>
  Claim C1, at the sample world: the one plant \<open>p1\<close> has the devices Living Room and
  Bedroom. The step mints a webhook id and fetches the programs for both, and stores each
  candidate under the key \<open>p1\<close>: the second replaces the first. The candidate collection
  holds Bedroom alone, and the selection form offers Bedroom alone.
\<close>

theorem two_devices_leave_one_candidate:
  "map thermo_name (topology_data (get_topology sample_env [] ''p1'')) = [''Living Room'', ''Bedroom'']
   \<and> fst (async_step_get_authorize_code sample_env (Some sample_callback) awaiting_callback) =
       Inr (ShowForm \<lparr>step_id = ''select_thermostats'',
                      data_schema = [MultiSelectField ''selected_thermostats'' ''Select Thermostats''
                                       [''Bedroom''] [''Bedroom'']],
                      errors = None\<rparr>)
   \<and> thermostat_options (snd (async_step_get_authorize_code sample_env (Some sample_callback)
                                awaiting_callback)) =
       Some [(''p1'', \<lparr>cand_id = ''d2'', cand_name = ''Bedroom'', cand_webhook_id = ''hookx'',
                       cand_programs = [\<lparr>number = 1, program_name = ''day''\<rparr>,
                                        \<lparr>number = 2, program_name = ''night''\<rparr>]\<rparr>)]
   \<and> ids_minted (snd (async_step_get_authorize_code sample_env (Some sample_callback)
                        awaiting_callback)) = 2"
proof -
  let ?s1 = "tokens_stored awaiting_callback ''my-id'' ''my-secret''
               (DEFAULT_REDIRECT_URI sample_env) ''ABC'' (''tok_a'', ''tok_r'', ''2025-01-01T00:00:00Z'')"
  let ?s2 = "?s1\<lparr>calls := calls ?s1 @ [CheckHealth]\<rparr>"
  let ?bedroom = "\<lparr>cand_id = ''d2'', cand_name = ''Bedroom'', cand_webhook_id = ''hookx'',
                       cand_programs = [\<lparr>number = 1, program_name = ''day''\<rparr>,
                                        \<lparr>number = 2, program_name = ''night''\<rparr>]\<rparr>"
  have reach: "authorize_code_try sample_env sample_callback awaiting_callback =
          bnd (remote CheckHealth (check_api_endpoint_health sample_env))
            (\<lambda>healthy. if \<not> healthy then ret (Abort ''Auth Failed!'') else discover sample_env)
            ?s1"
    by (rule callback_reaches_health_check
          [where browser_url = "''https://x/cb?code=ABC&state=XYZ''"
             and query = "url_query ''https://x/cb?code=ABC&state=XYZ''"
             and more_codes = "[]" and state = "''XYZ''" and more_states = "[]"
             and d = sample_credentials])
       (simp_all add: sample_env_fields awaiting_callback_fields sample_callback_def
          sample_callback_params)
  have body: "authorize_code_try sample_env sample_callback awaiting_callback = discover sample_env ?s2"
    by (simp add: reach bnd_def remote_def sample_env_fields)
  have api2: "bticino_api ?s2" and minted2: "ids_minted ?s2 = 0"
    by (simp_all add: tokens_stored_fields awaiting_callback_def new_flow_def)
  have loop: "fst (plant_loop sample_env [''p1''] [] (?s2\<lparr>calls := calls ?s2 @ [GetPlants]\<rparr>)) =
                Inr [(''p1'', ?bedroom)]
            \<and> ids_minted (snd (plant_loop sample_env [''p1''] [] (?s2\<lparr>calls := calls ?s2 @ [GetPlants]\<rparr>))) = 2"
    using api2 minted2
    by (simp add: bnd_def ret_def remote_def self_bticino_api_def new_webhook_id_def
        get_programs_from_api_def sample_env_discovery_fields)
  obtain s3 where run: "plant_loop sample_env [''p1''] [] (?s2\<lparr>calls := calls ?s2 @ [GetPlants]\<rparr>) =
                (Inr [(''p1'', ?bedroom)], s3)" and minted3: "ids_minted s3 = 2"
    using loop by (metis prod.collapse)
  have "discover sample_env ?s2 =
          (Inr (ShowForm (select_form [(''p1'', ?bedroom)])),
           s3\<lparr>thermostat_options := Some [(''p1'', ?bedroom)]\<rparr>)"
    using api2 run
    by (simp add: discover_def bnd_def ret_def remote_def self_bticino_api_def sample_env_fields)
  then have "async_step_get_authorize_code sample_env (Some sample_callback) awaiting_callback =
          (Inr (ShowForm (select_form [(''p1'', ?bedroom)])),
           s3\<lparr>thermostat_options := Some [(''p1'', ?bedroom)]\<rparr>)"
    by (simp add: async_step_get_authorize_code_def body)
  then show ?thesis
    using minted3 by (simp add: select_form_def sample_env_discovery_fields)
qed

subsection \<open>Subscription Manager\<close>

lemma add_c2c_subscription_run:
  assumes "data s = Some d" "d ''external_url'' = Some external_url" "bticino_api s"
  shows "add_c2c_subscription env plantId webhook_id s =
           (Inr (if status_code (set_subscribe_C2C_notifications env (calls s) plantId
                                   (external_url @ ''/api/webhook/'' @ webhook_id)) = 201
                 then Some (subscriptionId (set_subscribe_C2C_notifications env (calls s) plantId
                                   (external_url @ ''/api/webhook/'' @ webhook_id)))
                 else None),
            s\<lparr>calls := calls s @ [Subscribe plantId (external_url @ ''/api/webhook/'' @ webhook_id)]\<rparr>)"
  using assms
  by (simp add: add_c2c_subscription_def bnd_def ret_def self_data_def getitem_def
      self_bticino_api_def remote_def Let_def del: append_assoc append.simps)

lemma subscribe_selected_run:
  assumes "data s = Some d" "d ''external_url'' = Some external_url" "bticino_api s"
  shows "\<exists>sel. subscribe_selected env selected opts s =
           (Inr sel,
            s\<lparr>calls := calls s @
                 map (\<lambda>item. Subscribe (fst item) (external_url @ ''/api/webhook/'' @ cand_webhook_id (snd item)))
                   (filter (\<lambda>item. cand_name (snd item) \<in> set selected) opts)\<rparr>)
         \<and> length sel = length (filter (\<lambda>item. cand_name (snd item) \<in> set selected) opts)
         \<and> (\<forall>i < length (filter (\<lambda>item. cand_name (snd item) \<in> set selected) opts).
               fst (sel ! i) = fst (filter (\<lambda>item. cand_name (snd item) \<in> set selected) opts ! i)
             \<and> thermostat_candidate.truncate (snd (sel ! i)) =
                 snd (filter (\<lambda>item. cand_name (snd item) \<in> set selected) opts ! i)
             \<and> subscription_id (snd (sel ! i)) =
                 (let item = filter (\<lambda>item. cand_name (snd item) \<in> set selected) opts ! i;
                      response = set_subscribe_C2C_notifications env
                        (calls s @ take i
                           (map (\<lambda>item. Subscribe (fst item)
                                   (external_url @ ''/api/webhook/'' @ cand_webhook_id (snd item)))
                              (filter (\<lambda>item. cand_name (snd item) \<in> set selected) opts)))
                        (fst item) (external_url @ ''/api/webhook/'' @ cand_webhook_id (snd item))
                  in if status_code response = 201 then Some (subscriptionId response) else None))"
  using assms
proof (induction opts arbitrary: s)
  case Nil
  then show ?case by (simp add: ret_def)
next
  case (Cons item items)
  define url where "url = (\<lambda>item :: string \<times> thermostat_candidate.
     external_url @ ''/api/webhook/'' @ cand_webhook_id (snd item))"
  define chosen where "chosen = filter (\<lambda>item. cand_name (snd item) \<in> set selected) items"
  define outcome where "outcome = (\<lambda>response :: subscribe_response.
     if status_code response = 201 then Some (subscriptionId response) else None)"
  show ?case
  proof (cases "cand_name (snd item) \<in> set selected")
    case False
    then show ?thesis
      using Cons.IH [OF Cons.prems] by simp
  next
    case True
    let ?s1 = "s\<lparr>calls := calls s @ [Subscribe (fst item) (url item)]\<rparr>"
    let ?sub = "outcome (set_subscribe_C2C_notifications env (calls s) (fst item) (url item))"
    let ?head = "(fst item,
              \<lparr>cand_id = cand_id (snd item), cand_name = cand_name (snd item),
               cand_webhook_id = cand_webhook_id (snd item), cand_programs = cand_programs (snd item),
               subscription_id = ?sub\<rparr>)"
    have first: "add_c2c_subscription env (fst item) (cand_webhook_id (snd item)) s = (Inr ?sub, ?s1)"
      using add_c2c_subscription_run [OF Cons.prems, of env "fst item" "cand_webhook_id (snd item)"]
      by (simp add: url_def outcome_def)
    have prems1: "data ?s1 = Some d" "bticino_api ?s1"
      using Cons.prems by simp_all
    obtain sel where rest: "subscribe_selected env selected items ?s1 =
           (Inr sel, ?s1\<lparr>calls := calls ?s1 @ map (\<lambda>item. Subscribe (fst item) (url item)) chosen\<rparr>)"
      and len: "length sel = length chosen"
      and each: "\<forall>i < length chosen.
               fst (sel ! i) = fst (chosen ! i)
             \<and> thermostat_candidate.truncate (snd (sel ! i)) = snd (chosen ! i)
             \<and> subscription_id (snd (sel ! i)) =
                 outcome (set_subscribe_C2C_notifications env
                        (calls ?s1 @ take i (map (\<lambda>item. Subscribe (fst item) (url item)) chosen))
                        (fst (chosen ! i)) (url (chosen ! i)))"
      using Cons.IH [OF prems1(1) Cons.prems(2) prems1(2)]
      unfolding url_def chosen_def outcome_def Let_def by blast
    have run: "subscribe_selected env selected (item # items) s =
           (Inr (?head # sel),
            s\<lparr>calls := calls s @ map (\<lambda>item. Subscribe (fst item) (url item)) (item # chosen)\<rparr>)"
      using True first rest by (simp add: bnd_def ret_def)
    have filt: "filter (\<lambda>item. cand_name (snd item) \<in> set selected) (item # items) = item # chosen"
      using True by (simp add: chosen_def)
    have all: "\<forall>i < length (item # chosen).
               fst ((?head # sel) ! i) = fst ((item # chosen) ! i)
             \<and> thermostat_candidate.truncate (snd ((?head # sel) ! i)) = snd ((item # chosen) ! i)
             \<and> subscription_id (snd ((?head # sel) ! i)) =
                 outcome (set_subscribe_C2C_notifications env
                        (calls s @ take i (map (\<lambda>item. Subscribe (fst item) (url item)) (item # chosen)))
                        (fst ((item # chosen) ! i)) (url ((item # chosen) ! i)))"
    proof (intro allI impI)
      fix i assume i: "i < length (item # chosen)"
      show "fst ((?head # sel) ! i) = fst ((item # chosen) ! i)
             \<and> thermostat_candidate.truncate (snd ((?head # sel) ! i)) = snd ((item # chosen) ! i)
             \<and> subscription_id (snd ((?head # sel) ! i)) =
                 outcome (set_subscribe_C2C_notifications env
                        (calls s @ take i (map (\<lambda>item. Subscribe (fst item) (url item)) (item # chosen)))
                        (fst ((item # chosen) ! i)) (url ((item # chosen) ! i)))"
      proof (cases i)
        case 0
        then show ?thesis by (simp add: thermostat_candidate.truncate_def)
      next
        case (Suc j)
        then have "j < length chosen" using i by simp
        then show ?thesis using each Suc by simp
      qed
    qed
    show ?thesis
      unfolding filt
      using run len all
      by (intro exI [of _ "?head # sel"]) (simp add: url_def outcome_def Let_def)
  qed
qed

text \<open>
  Claim C4. In a flow that holds the credentials, the tokens and the API object:
  \<open>add_c2c_subscription\<close> calls the subscription endpoint with the delivery URL
  \<open>external_url + "/api/webhook/" + webhook_id\<close>, returns the \<open>subscriptionId\<close> of
  the response when its status is 201, and returns \<open>None\<close>, without raising, for any
  other status. The selection step subscribes every candidate whose name was selected, one
  after the other in the order of the collection, whatever the earlier responses were,
  and returns the entry to persist: one selected thermostat for each of these candidates,
  with the candidate's fields and the subscription id returned for it, \<open>None\<close> where
  the response was not 201.
\<close>

theorem failed_subscription_is_recorded_as_null:
  assumes stored: "data s = Some d"
    and keys: "d ''client_id'' = Some client_id" "d ''client_secret'' = Some client_secret"
      "d ''subscription_key'' = Some subscription_key" "d ''external_url'' = Some external_url"
      "d ''access_token'' = Some access_token" "d ''refresh_token'' = Some refresh_token"
      "d ''access_token_expires_on'' = Some expires_on"
    and api: "bticino_api s"
    and opts: "thermostat_options s = Some opts"
    and chosen: "chosen = filter (\<lambda>item. cand_name (snd item) \<in> set selected) opts"
    and subs: "subs = map (\<lambda>item. Subscribe (fst item)
                            (external_url @ ''/api/webhook/'' @ cand_webhook_id (snd item))) chosen"
  shows "(\<forall>plantId webhook_id.
            add_c2c_subscription env plantId webhook_id s =
              (Inr (let response = set_subscribe_C2C_notifications env (calls s) plantId
                                     (external_url @ ''/api/webhook/'' @ webhook_id)
                    in if status_code response = 201 then Some (subscriptionId response) else None),
               s\<lparr>calls := calls s @ [Subscribe plantId (external_url @ ''/api/webhook/'' @ webhook_id)]\<rparr>))
       \<and> (\<exists>sel. async_step_select_thermostats env selected s =
              (Inr (CreateEntry ''Bticino X8000''
                      \<lparr>cfg_client_id = client_id, cfg_client_secret = client_secret,
                       cfg_subscription_key = subscription_key, cfg_external_url = external_url,
                       cfg_access_token = access_token, cfg_refresh_token = refresh_token,
                       cfg_access_token_expires_on = expires_on,
                       cfg_selected_thermostats = sel\<rparr>),
               s\<lparr>calls := calls s @ subs\<rparr>)
            \<and> length sel = length chosen
            \<and> (\<forall>i < length chosen.
                  fst (sel ! i) = fst (chosen ! i)
                \<and> thermostat_candidate.truncate (snd (sel ! i)) = snd (chosen ! i)
                \<and> subscription_id (snd (sel ! i)) =
                    (let response = set_subscribe_C2C_notifications env (calls s @ take i subs)
                                      (fst (chosen ! i))
                                      (external_url @ ''/api/webhook/'' @ cand_webhook_id (snd (chosen ! i)))
                     in if status_code response = 201 then Some (subscriptionId response) else None)))"
proof (intro conjI allI)
  fix plantId webhook_id
  show "add_c2c_subscription env plantId webhook_id s =
              (Inr (let response = set_subscribe_C2C_notifications env (calls s) plantId
                                     (external_url @ ''/api/webhook/'' @ webhook_id)
                    in if status_code response = 201 then Some (subscriptionId response) else None),
               s\<lparr>calls := calls s @ [Subscribe plantId (external_url @ ''/api/webhook/'' @ webhook_id)]\<rparr>)"
    using add_c2c_subscription_run [OF stored keys(4) api, of env plantId webhook_id]
    by (simp add: Let_def)
next
  let ?s1 = "s\<lparr>calls := calls s @ subs\<rparr>"
  obtain sel where run: "subscribe_selected env selected opts s = (Inr sel, ?s1)"
    and len: "length sel = length chosen"
    and each: "\<forall>i < length chosen.
                  fst (sel ! i) = fst (chosen ! i)
                \<and> thermostat_candidate.truncate (snd (sel ! i)) = snd (chosen ! i)
                \<and> subscription_id (snd (sel ! i)) =
                    (let response = set_subscribe_C2C_notifications env (calls s @ take i subs)
                                      (fst (chosen ! i))
                                      (external_url @ ''/api/webhook/'' @ cand_webhook_id (snd (chosen ! i)))
                     in if status_code response = 201 then Some (subscriptionId response) else None)"
    using subscribe_selected_run [OF stored keys(4) api, of env selected opts]
    unfolding chosen subs Let_def by blast
  have "async_step_select_thermostats env selected s =
              (Inr (CreateEntry ''Bticino X8000''
                      \<lparr>cfg_client_id = client_id, cfg_client_secret = client_secret,
                       cfg_subscription_key = subscription_key, cfg_external_url = external_url,
                       cfg_access_token = access_token, cfg_refresh_token = refresh_token,
                       cfg_access_token_expires_on = expires_on,
                       cfg_selected_thermostats = sel\<rparr>), ?s1)"
    using stored keys opts run
    by (simp add: async_step_select_thermostats_def bnd_def ret_def self_thermostat_options_def
        self_data_def getitem_def)
  then show "\<exists>sel. async_step_select_thermostats env selected s =
              (Inr (CreateEntry ''Bticino X8000''
                      \<lparr>cfg_client_id = client_id, cfg_client_secret = client_secret,
                       cfg_subscription_key = subscription_key, cfg_external_url = external_url,
                       cfg_access_token = access_token, cfg_refresh_token = refresh_token,
                       cfg_access_token_expires_on = expires_on,
                       cfg_selected_thermostats = sel\<rparr>),
               s\<lparr>calls := calls s @ subs\<rparr>)
            \<and> length sel = length chosen
            \<and> (\<forall>i < length chosen.
                  fst (sel ! i) = fst (chosen ! i)
                \<and> thermostat_candidate.truncate (snd (sel ! i)) = snd (chosen ! i)
                \<and> subscription_id (snd (sel ! i)) =
                    (let response = set_subscribe_C2C_notifications env (calls s @ take i subs)
                                      (fst (chosen ! i))
                                      (external_url @ ''/api/webhook/'' @ cand_webhook_id (snd (chosen ! i)))
                     in if status_code response = 201 then Some (subscriptionId response) else None))"
    using len each by blast
qed

theorem failed_subscription_is_recorded_as_null_witness:
  "status_code (set_subscribe_C2C_notifications subscription_refused_env []
                  ''p1'' ''https://ha.example/api/webhook/hook'') \<noteq> 201
   \<and> (\<exists>sel. fst (async_step_select_thermostats subscription_refused_env
                       [''Living Room'', ''Bedroom''] selecting_devices) =
              Inr (CreateEntry ''Bticino X8000''
                      \<lparr>cfg_client_id = ''my-id'', cfg_client_secret = ''my-secret'',
                       cfg_subscription_key = ''my-key'', cfg_external_url = ''https://ha.example'',
                       cfg_access_token = ''tok_a'', cfg_refresh_token = ''tok_r'',
                       cfg_access_token_expires_on = ''2025-01-01T00:00:00Z'',
                       cfg_selected_thermostats = sel\<rparr>)
            \<and> map fst sel = [''p1'', ''p2'']
            \<and> map (\<lambda>x. subscription_id (snd x)) sel = [None, Some ''sub-2''])
   \<and> calls (snd (async_step_select_thermostats subscription_refused_env
                    [''Living Room'', ''Bedroom''] selecting_devices)) =
       [Subscribe ''p1'' ''https://ha.example/api/webhook/hook'',
        Subscribe ''p2'' ''https://ha.example/api/webhook/hookx'']"
proof -
  let ?living = "\<lparr>cand_id = ''d1'', cand_name = ''Living Room'',
                    cand_webhook_id = ''hook'', cand_programs = []\<rparr>"
  let ?bedroom = "\<lparr>cand_id = ''d2'', cand_name = ''Bedroom'',
                    cand_webhook_id = ''hookx'', cand_programs = []\<rparr>"
  let ?opts = "[(''p1'', ?living), (''p2'', ?bedroom)]"
  let ?subs = "[Subscribe ''p1'' ''https://ha.example/api/webhook/hook'',
                Subscribe ''p2'' ''https://ha.example/api/webhook/hookx'']"
  let ?d = "sample_credentials(''code'' \<mapsto> ''ABC'', ''access_token'' \<mapsto> ''tok_a'',
                               ''refresh_token'' \<mapsto> ''tok_r'',
                               ''access_token_expires_on'' \<mapsto> ''2025-01-01T00:00:00Z'')"
  have refused: "status_code (set_subscribe_C2C_notifications subscription_refused_env []
                  ''p1'' ''https://ha.example/api/webhook/hook'') \<noteq> 201"
    by (simp add: subscription_refused_env_def)
  have inst: "(\<forall>plantId webhook_id.
            add_c2c_subscription subscription_refused_env plantId webhook_id selecting_devices =
              (Inr (let response = set_subscribe_C2C_notifications subscription_refused_env
                                     (calls selecting_devices) plantId
                                     (''https://ha.example'' @ ''/api/webhook/'' @ webhook_id)
                    in if status_code response = 201 then Some (subscriptionId response) else None),
               selecting_devices\<lparr>calls := calls selecting_devices @
                  [Subscribe plantId (''https://ha.example'' @ ''/api/webhook/'' @ webhook_id)]\<rparr>))
       \<and> (\<exists>sel. async_step_select_thermostats subscription_refused_env
                    [''Living Room'', ''Bedroom''] selecting_devices =
              (Inr (CreateEntry ''Bticino X8000''
                      \<lparr>cfg_client_id = ''my-id'', cfg_client_secret = ''my-secret'',
                       cfg_subscription_key = ''my-key'', cfg_external_url = ''https://ha.example'',
                       cfg_access_token = ''tok_a'', cfg_refresh_token = ''tok_r'',
                       cfg_access_token_expires_on = ''2025-01-01T00:00:00Z'',
                       cfg_selected_thermostats = sel\<rparr>),
               selecting_devices\<lparr>calls := calls selecting_devices @ ?subs\<rparr>)
            \<and> length sel = length ?opts
            \<and> (\<forall>i < length ?opts.
                  fst (sel ! i) = fst (?opts ! i)
                \<and> thermostat_candidate.truncate (snd (sel ! i)) = snd (?opts ! i)
                \<and> subscription_id (snd (sel ! i)) =
                    (let response = set_subscribe_C2C_notifications subscription_refused_env
                                      (calls selecting_devices @ take i ?subs)
                                      (fst (?opts ! i))
                                      (''https://ha.example'' @ ''/api/webhook/''
                                         @ cand_webhook_id (snd (?opts ! i)))
                     in if status_code response = 201 then Some (subscriptionId response) else None)))"
    by (rule failed_subscription_is_recorded_as_null [where d = ?d and opts = ?opts])
       (simp_all add: selecting_devices_def new_flow_def sample_credentials_def)
  then obtain sel where run: "async_step_select_thermostats subscription_refused_env
                    [''Living Room'', ''Bedroom''] selecting_devices =
              (Inr (CreateEntry ''Bticino X8000''
                      \<lparr>cfg_client_id = ''my-id'', cfg_client_secret = ''my-secret'',
                       cfg_subscription_key = ''my-key'', cfg_external_url = ''https://ha.example'',
                       cfg_access_token = ''tok_a'', cfg_refresh_token = ''tok_r'',
                       cfg_access_token_expires_on = ''2025-01-01T00:00:00Z'',
                       cfg_selected_thermostats = sel\<rparr>),
               selecting_devices\<lparr>calls := calls selecting_devices @ ?subs\<rparr>)"
    and len: "length sel = length ?opts"
    and each: "\<forall>i < length ?opts.
                  fst (sel ! i) = fst (?opts ! i)
                \<and> thermostat_candidate.truncate (snd (sel ! i)) = snd (?opts ! i)
                \<and> subscription_id (snd (sel ! i)) =
                    (let response = set_subscribe_C2C_notifications subscription_refused_env
                                      (calls selecting_devices @ take i ?subs)
                                      (fst (?opts ! i))
                                      (''https://ha.example'' @ ''/api/webhook/''
                                         @ cand_webhook_id (snd (?opts ! i)))
                     in if status_code response = 201 then Some (subscriptionId response) else None)"
    by blast
  obtain a b where sel: "sel = [a, b]"
    using len by (cases sel; simp) (metis length_0_conv length_Suc_conv)
  have e0: "fst a = ''p1'' \<and> subscription_id (snd a) = None"
    using each [rule_format, of 0] by (simp add: sel subscription_refused_env_def)
  have e1: "fst b = ''p2'' \<and> subscription_id (snd b) = Some ''sub-2''"
    using each [rule_format, of 1] by (simp add: sel subscription_refused_env_def)
  have trace: "calls selecting_devices = []"
    by (simp add: selecting_devices_def new_flow_def)
  show ?thesis
    using refused e0 e1 unfolding run sel by (simp add: trace)
qed

subsection \<open>Single instance\<close>

lemma user_step_aborts:
  "current_entries s \<noteq> [] \<Longrightarrow>
   async_step_user env user_input s = (Inr (Abort ''single_instance_allowed''), s)"
  by (simp add: async_step_user_def ret_def Let_def)

text \<open>
  Once an entry exists, every flow that begins aborts at the user step, and an answer to
  an aborted flow reaches no step: the world stays as it is.
\<close>

lemma handle_with_entry:
  assumes entry: "current_entries (fst p) \<noteq> []"
    and ended: "\<forall>r \<in> set (snd p). fst r = Inr (Abort ''single_instance_allowed'')"
  shows "current_entries (fst (handle env ev p)) = current_entries (fst p)
       \<and> calls (fst (handle env ev p)) = calls (fst p)
       \<and> tokens_drawn (fst (handle env ev p)) = tokens_drawn (fst p)
       \<and> (\<forall>r \<in> set (snd (handle env ev p)). fst r = Inr (Abort ''single_instance_allowed''))"
proof (cases ev)
  case Begin
  have "current_entries (begin_flow (fst p)) \<noteq> []"
    using entry by (simp add: begin_flow_def)
  then have "async_step_user env None (begin_flow (fst p)) =
               (Inr (Abort ''single_instance_allowed''), begin_flow (fst p))"
    by (rule user_step_aborts)
  then show ?thesis
    using Begin ended by (simp add: handle_def store_entry_def begin_flow_def)
next
  case (Answer i a)
  show ?thesis
  proof (cases "i < length (snd p)")
    case True
    then have "fst (snd p ! i) = Inr (Abort ''single_instance_allowed'')"
      using ended by simp
    then show ?thesis
      using Answer True ended by (simp add: handle_def)
  next
    case False
    then show ?thesis
      using Answer ended by (simp add: handle_def)
  qed
qed

lemma run_events_with_entry:
  assumes "current_entries (fst p) \<noteq> []"
    and "\<forall>r \<in> set (snd p). fst r = Inr (Abort ''single_instance_allowed'')"
  shows "current_entries (fst (run_events env events p)) = current_entries (fst p)
       \<and> calls (fst (run_events env events p)) = calls (fst p)
       \<and> tokens_drawn (fst (run_events env events p)) = tokens_drawn (fst p)
       \<and> (\<forall>r \<in> set (snd (run_events env events p)). fst r = Inr (Abort ''single_instance_allowed''))"
  using assms
proof (induction events arbitrary: p)
  case Nil
  then show ?case by simp
next
  case (Cons ev events)
  have step: "current_entries (fst (handle env ev p)) = current_entries (fst p)
       \<and> calls (fst (handle env ev p)) = calls (fst p)
       \<and> tokens_drawn (fst (handle env ev p)) = tokens_drawn (fst p)
       \<and> (\<forall>r \<in> set (snd (handle env ev p)). fst r = Inr (Abort ''single_instance_allowed''))"
    using Cons.prems by (rule handle_with_entry)
  then have "current_entries (fst (handle env ev p)) \<noteq> []"
    using Cons.prems(1) by simp
  from Cons.IH [OF this] step show ?case by simp
qed

text \<open>
  Claim C8, as the code has it. When a configuration entry exists as the user step is
  entered, the step returns the abort \<open>single_instance_allowed\<close> whatever its input,
  and leaves the flow object and the world as they were: no remote call, no token drawn,
  no form. Hence, once an entry exists and no earlier flow is in progress, no flow can
  store another one: whatever flows begin afterwards and whatever answers they get, in
  any interleaving, every one of them ends with this abort and the entries and the remote
  calls stay as they were. The entries are tested at the user step only; flows that were
  past it before the first entry was stored are not covered.
\<close>

theorem existing_entry_aborts_user_step:
  assumes "current_entries s \<noteq> []"
  shows "async_step_user env user_input s = (Inr (Abort ''single_instance_allowed''), s)
       \<and> current_entries (fst (run_events env events (s, []))) = current_entries s
       \<and> calls (fst (run_events env events (s, []))) = calls s
       \<and> tokens_drawn (fst (run_events env events (s, []))) = tokens_drawn s
       \<and> (\<forall>r \<in> set (snd (run_events env events (s, []))).
             fst r = Inr (Abort ''single_instance_allowed''))"
  using run_events_with_entry [of "(s, [])" env events] user_step_aborts [OF assms, of env user_input]
    assms
  by simp

theorem existing_entry_aborts_user_step_witness:
  "current_entries configured \<noteq> []
   \<and> async_step_user sample_env (Some sample_credentials) configured =
       (Inr (Abort ''single_instance_allowed''), configured)
   \<and> length (current_entries (fst (run_events sample_env two_flows (configured, [])))) = 1
   \<and> calls (fst (run_events sample_env two_flows (configured, []))) = []
   \<and> map fst (snd (run_events sample_env two_flows (configured, []))) =
       [Inr (Abort ''single_instance_allowed''), Inr (Abort ''single_instance_allowed'')]"
proof -
  have entry: "current_entries configured \<noteq> []" and one: "length (current_entries configured) = 1"
    and trace: "calls configured = []"
    by (simp_all add: configured_def new_flow_def)
  have began: "length (snd (run_events sample_env two_flows (configured, []))) = 2"
    by code_simp
  have inst: "async_step_user sample_env (Some sample_credentials) configured =
          (Inr (Abort ''single_instance_allowed''), configured)
       \<and> current_entries (fst (run_events sample_env two_flows (configured, []))) =
           current_entries configured
       \<and> calls (fst (run_events sample_env two_flows (configured, []))) = calls configured
       \<and> tokens_drawn (fst (run_events sample_env two_flows (configured, []))) =
           tokens_drawn configured
       \<and> (\<forall>r \<in> set (snd (run_events sample_env two_flows (configured, []))).
             fst r = Inr (Abort ''single_instance_allowed''))"
    using entry by (rule existing_entry_aborts_user_step)
  obtain a b where flows: "snd (run_events sample_env two_flows (configured, [])) = [a, b]"
    using began by (metis (no_types, opaque_lifting) length_0_conv length_Suc_conv numeral_2_eq_2)
  show ?thesis
    using entry one trace inst unfolding flows by simp
qed

text \<open>
  Two flows that both passed the user step before either stored its entry both store
  one: the installation ends with two entries.
\<close>

theorem two_flows_store_two_entries_counterexample:
  "current_entries new_flow = []
   \<and> length (current_entries (fst (run_events sample_env two_flows (new_flow, [])))) = 2"
  by code_simp

subsection \<open>Authorization URL\<close>

























end
